theory Spec2Isabelle
  imports Complex_Main "HOL-Library.Sublist" "HOL-Library.Log_Nat"
begin

section \<open>JavaScript values used by main.js\<close>

text \<open>
  A JavaScript number is an IEEE double. A value here is \<open>undefined\<close> (what \<open>d3.max\<close>,
  \<open>d3.min\<close> and \<open>d3.mean\<close> return when they saw no number), \<open>NaN\<close> (what unary plus
  gives on malformed text, what \<open>getFullYear\<close> gives on an invalid date), one of the two
  infinities, or a finite number, held as a real. The two zeros are one value.
\<close>

datatype jsnum = Undefined | NaN | PInf | NInf | Num real

text \<open>\<open>ToNumber\<close>: \<open>undefined\<close> becomes \<open>NaN\<close> in arithmetic and in comparisons.\<close>

fun to_number :: "jsnum \<Rightarrow> jsnum" where
  "to_number Undefined = NaN"
| "to_number v = v"

fun js_lt :: "jsnum \<Rightarrow> jsnum \<Rightarrow> bool" where
  "js_lt (Num a) (Num b) = (a < b)"
| "js_lt (Num a) PInf = True"
| "js_lt NInf (Num b) = True"
| "js_lt NInf PInf = True"
| "js_lt _ _ = False"

fun js_ge :: "jsnum \<Rightarrow> jsnum \<Rightarrow> bool" where
  "js_ge (Num a) (Num b) = (a \<ge> b)"
| "js_ge PInf (Num b) = True"
| "js_ge PInf PInf = True"
| "js_ge PInf NInf = True"
| "js_ge (Num a) NInf = True"
| "js_ge NInf NInf = True"
| "js_ge _ _ = False"

definition js_gt :: "jsnum \<Rightarrow> jsnum \<Rightarrow> bool" where
  "js_gt a b = js_lt b a"

text \<open>
  The arithmetic of the aggregator and of the year filter is exact on finite numbers: a
  sum, difference, product or quotient of two finite numbers is the real one, not rounded
  to a double. An infinity meets a number, the other infinity or zero as in IEEE
  arithmetic.
\<close>

fun js_add :: "jsnum \<Rightarrow> jsnum \<Rightarrow> jsnum" where
  "js_add (Num a) (Num b) = Num (a + b)"
| "js_add PInf (Num b) = PInf"
| "js_add (Num a) PInf = PInf"
| "js_add PInf PInf = PInf"
| "js_add NInf (Num b) = NInf"
| "js_add (Num a) NInf = NInf"
| "js_add NInf NInf = NInf"
| "js_add _ _ = NaN"

fun js_sub :: "jsnum \<Rightarrow> jsnum \<Rightarrow> jsnum" where
  "js_sub (Num a) (Num b) = Num (a - b)"
| "js_sub PInf (Num b) = PInf"
| "js_sub (Num a) NInf = PInf"
| "js_sub PInf NInf = PInf"
| "js_sub NInf (Num b) = NInf"
| "js_sub (Num a) PInf = NInf"
| "js_sub NInf PInf = NInf"
| "js_sub _ _ = NaN"

fun js_mul :: "jsnum \<Rightarrow> jsnum \<Rightarrow> jsnum" where
  "js_mul (Num a) (Num b) = Num (a * b)"
| "js_mul PInf (Num b) = (if b = 0 then NaN else if 0 < b then PInf else NInf)"
| "js_mul NInf (Num b) = (if b = 0 then NaN else if 0 < b then NInf else PInf)"
| "js_mul (Num a) PInf = (if a = 0 then NaN else if 0 < a then PInf else NInf)"
| "js_mul (Num a) NInf = (if a = 0 then NaN else if 0 < a then NInf else PInf)"
| "js_mul PInf PInf = PInf"
| "js_mul NInf NInf = PInf"
| "js_mul PInf NInf = NInf"
| "js_mul NInf PInf = NInf"
| "js_mul _ _ = NaN"

text \<open>
  Division; a finite number over zero is an infinity of the dividend's sign (the zero
  being taken as \<open>+0\<close>), zero over zero is \<open>NaN\<close>.
\<close>

fun js_div :: "jsnum \<Rightarrow> jsnum \<Rightarrow> jsnum" where
  "js_div (Num a) (Num b) =
     (if b = 0 then (if a = 0 then NaN else if 0 < a then PInf else NInf) else Num (a / b))"
| "js_div (Num a) PInf = Num 0"
| "js_div (Num a) NInf = Num 0"
| "js_div PInf (Num b) = (if 0 \<le> b then PInf else NInf)"
| "js_div NInf (Num b) = (if 0 \<le> b then NInf else PInf)"
| "js_div _ _ = NaN"

text \<open>A number is anything but \<open>undefined\<close> and \<open>NaN\<close>.\<close>

fun is_num :: "jsnum \<Rightarrow> bool" where
  "is_num Undefined = False"
| "is_num NaN = False"
| "is_num _ = True"

section \<open>Double arithmetic\<close>

text \<open>
  The scales compute pixel positions and colors in IEEE double arithmetic, and some of
  their properties turn on the rounding. \<open>dbl\<close> rounds a real to the nearest double, ties
  to the even significand, with 53 significant bits down to the exponent -1022 and the
  fixed spacing \<open>2^-1074\<close> below it (gradual underflow).
\<close>

definition pow2 :: "int \<Rightarrow> real" where
  "pow2 e = (if 0 \<le> e then 2 ^ nat e else 1 / 2 ^ nat (- e))"

text \<open>The binary exponent of a non-zero real: \<open>2^e \<le> |x| < 2^(e+1)\<close>.\<close>

definition ilog2 :: "real \<Rightarrow> int" where
  "ilog2 x = (if 1 \<le> \<bar>x\<bar> then bitlen \<lfloor>\<bar>x\<bar>\<rfloor> - 1 else - bitlen (\<lceil>1 / \<bar>x\<bar>\<rceil> - 1))"

definition ulp_exp :: "real \<Rightarrow> int" where
  "ulp_exp x = max (ilog2 x) (- 1022) - 52"

text \<open>The nearest integer, a tie going to the even one.\<close>

definition rne :: "real \<Rightarrow> int" where
  "rne y = (let f = \<lfloor>y\<rfloor>; d = y - of_int f
            in if d < 1 / 2 \<or> (d = 1 / 2 \<and> even f) then f else f + 1)"

definition dbl :: "real \<Rightarrow> real" where
  "dbl x = (if x = 0 then 0
            else let u = pow2 (ulp_exp x) in u * of_int (rne (x / u)))"

text \<open>The four operations on finite doubles whose result is finite.\<close>

definition fadd :: "real \<Rightarrow> real \<Rightarrow> real" where "fadd a b = dbl (a + b)"
definition fsub :: "real \<Rightarrow> real \<Rightarrow> real" where "fsub a b = dbl (a - b)"
definition fmul :: "real \<Rightarrow> real \<Rightarrow> real" where "fmul a b = dbl (a * b)"
definition fdiv :: "real \<Rightarrow> real \<Rightarrow> real" where "fdiv a b = dbl (a / b)"

text \<open>
  The operations on all values: the exact result is rounded, and a rounded result beyond
  the largest double is an infinity.
\<close>

definition max_double :: real where
  "max_double = (2 ^ 53 - 1) * 2 ^ 971"

fun js_round :: "jsnum \<Rightarrow> jsnum" where
  "js_round (Num x) =
     (let r = dbl x
      in if max_double < r then PInf else if r < - max_double then NInf else Num r)"
| "js_round v = v"

definition js_fadd :: "jsnum \<Rightarrow> jsnum \<Rightarrow> jsnum" where "js_fadd a b = js_round (js_add a b)"
definition js_fsub :: "jsnum \<Rightarrow> jsnum \<Rightarrow> jsnum" where "js_fsub a b = js_round (js_sub a b)"
definition js_fmul :: "jsnum \<Rightarrow> jsnum \<Rightarrow> jsnum" where "js_fmul a b = js_round (js_mul a b)"
definition js_fdiv :: "jsnum \<Rightarrow> jsnum \<Rightarrow> jsnum" where "js_fdiv a b = js_round (js_div a b)"

section \<open>The d3-array reducers the program calls\<close>

text \<open>
  main.js calls the d3 library for its reductions, its grouping and its scales; the
  library is loaded by the page and is not part of main.js. Its functions are written
  out here as d3 (version 6 and later, where \<open>d3.group\<close> exists and a listener receives
  \<open>(event, d)\<close>) implements them.

  \<open>d3.max(values, f)\<close> walks the values once, keeps the greatest number seen and skips
  \<open>undefined\<close> and \<open>NaN\<close>: a value replaces the running maximum when
  \<open>value != null && (max < value || (max === undefined && value >= value))\<close>.
  The result is \<open>undefined\<close> when no value was a number. \<open>d3.min\<close> is the mirror image.
\<close>

definition d3_max_step :: "jsnum \<Rightarrow> jsnum \<Rightarrow> jsnum" where
  "d3_max_step mx v =
     (if v \<noteq> Undefined \<and> (js_lt mx v \<or> (mx = Undefined \<and> js_ge v v)) then v else mx)"

definition d3_max :: "jsnum list \<Rightarrow> jsnum" where
  "d3_max vs = foldl d3_max_step Undefined vs"

definition d3_min_step :: "jsnum \<Rightarrow> jsnum \<Rightarrow> jsnum" where
  "d3_min_step mn v =
     (if v \<noteq> Undefined \<and> (js_lt v mn \<or> (mn = Undefined \<and> js_ge v v)) then v else mn)"

definition d3_min :: "jsnum list \<Rightarrow> jsnum" where
  "d3_min vs = foldl d3_min_step Undefined vs"

section \<open>Daily records\<close>

text \<open>
  A \<open>Date\<close> object is either invalid or a local calendar day; \<open>getFullYear\<close> and
  \<open>getMonth\<close> (0 = January) answer \<open>NaN\<close> on an invalid date.
\<close>

datatype jsdate = InvalidDate | LocalDate int nat nat

fun getFullYear :: "jsdate \<Rightarrow> jsnum" where
  "getFullYear InvalidDate = NaN"
| "getFullYear (LocalDate y m d) = Num (of_int y)"

fun getMonth :: "jsdate \<Rightarrow> jsnum" where
  "getMonth InvalidDate = NaN"
| "getMonth (LocalDate y m d) = Num (of_nat m)"

text \<open>The fields \<open>max\<close> and \<open>min\<close> of a parsed row are named \<open>maxT\<close> and \<open>minT\<close> here.\<close>

record row =
  date :: jsdate
  maxT :: jsnum
  minT :: jsnum

section \<open>Year filter\<close>

definition row_year :: "row \<Rightarrow> jsnum" where
  "row_year d = getFullYear (date d)"

definition filterLastYears :: "row list \<Rightarrow> int \<Rightarrow> row list" where
  "filterLastYears data n =
     (let maxYear = d3_max (map row_year data)
      in filter (\<lambda>d. js_gt (row_year d) (js_sub maxYear (Num (of_int n)))) data)"

text \<open>The years that occur in the data, as integers (a row with an invalid date has none).\<close>

fun date_year :: "jsdate \<Rightarrow> int option" where
  "date_year InvalidDate = None"
| "date_year (LocalDate y m dd) = Some y"

definition year_of :: "row \<Rightarrow> int option" where
  "year_of d = date_year (date d)"

definition years_list :: "row list \<Rightarrow> int list" where
  "years_list data = List.map_filter year_of data"

text \<open>
  The reading of "the N greatest distinct year values present in data": sort the distinct
  years, take the last N.
\<close>

definition top_years :: "row list \<Rightarrow> int \<Rightarrow> int set" where
  "top_years data n = set (take (nat n) (rev (sort (remdups (years_list data)))))"

text \<open>Every calendar year between the least and the greatest year present is present.\<close>

definition years_contiguous :: "row list \<Rightarrow> bool" where
  "years_contiguous data =
     (let ys = years_list data
      in ys = [] \<or> list_all (\<lambda>y. y \<in> set ys) [Min (set ys) .. Max (set ys)])"

text \<open>A value other than the two infinities.\<close>

fun fin :: "jsnum \<Rightarrow> bool" where
  "fin PInf = False"
| "fin NInf = False"
| "fin _ = True"

text \<open>The finite numbers among a list of values, in order.\<close>

fun nums :: "jsnum list \<Rightarrow> real list" where
  "nums [] = []"
| "nums (Num x # vs) = x # nums vs"
| "nums (_ # vs) = nums vs"

section \<open>Sample data\<close>

text \<open>Two rows five calendar years apart.\<close>

definition ex_gap :: "row list" where
  "ex_gap = [\<lparr>date = LocalDate 2005 0 1, maxT = Num 20, minT = Num 10\<rparr>,
             \<lparr>date = LocalDate 2010 0 1, maxT = Num 21, minT = Num 11\<rparr>]"

text \<open>Two consecutive years, with a row whose date text did not parse in between.\<close>

definition ex_contig :: "row list" where
  "ex_contig = [\<lparr>date = LocalDate 2009 11 31, maxT = Num 20, minT = Num 10\<rparr>,
                \<lparr>date = InvalidDate, maxT = Num 25, minT = Num 15\<rparr>,
                \<lparr>date = LocalDate 2010 0 1, maxT = Num 21, minT = Num 11\<rparr>]"

text \<open>A single row whose date text did not parse.\<close>

definition ex_invalid :: "row list" where
  "ex_invalid = [\<lparr>date = InvalidDate, maxT = Num 30, minT = Num 20\<rparr>]"

section \<open>Grouping and averaging\<close>

text \<open>
  \<open>d3.group(data, key1, key2)\<close> builds a nested \<open>InternMap\<close>. For each level it walks the
  values in order; a value whose key is already in the map is pushed onto that key's
  array, any other value starts a new entry at the end. A \<open>Map\<close> iterates in insertion
  order, so the map is an association list in order of first occurrence. Keys are
  compared as numbers, and \<open>NaN\<close> is one key.
\<close>

fun group_add :: "'k \<Rightarrow> 'a \<Rightarrow> ('k \<times> 'a list) list \<Rightarrow> ('k \<times> 'a list) list" where
  "group_add k v [] = [(k, [v])]"
| "group_add k v ((k', vs) # gs) =
     (if k' = k then (k', vs @ [v]) # gs else (k', vs) # group_add k v gs)"

definition regroup :: "('a \<Rightarrow> 'k) \<Rightarrow> 'a list \<Rightarrow> ('k \<times> 'a list) list" where
  "regroup keyof vals = foldl (\<lambda>groups v. group_add (keyof v) v groups) [] vals"

definition d3_group ::
  "'a list \<Rightarrow> ('a \<Rightarrow> 'k) \<Rightarrow> ('a \<Rightarrow> 'm) \<Rightarrow> ('k \<times> ('m \<times> 'a list) list) list" where
  "d3_group vals key1 key2 = map (\<lambda>(k, vs). (k, regroup key2 vs)) (regroup key1 vals)"

text \<open>
  \<open>d3.mean(values, f)\<close> counts and adds the values that pass
  \<open>value != null && (value = +value) >= value\<close>, so \<open>undefined\<close> and \<open>NaN\<close> are skipped,
  and returns \<open>sum / count\<close> if the count is not zero, \<open>undefined\<close> otherwise.
\<close>

definition d3_mean_step :: "nat \<times> jsnum \<Rightarrow> jsnum \<Rightarrow> nat \<times> jsnum" where
  "d3_mean_step acc v =
     (if v \<noteq> Undefined \<and> js_ge (to_number v) (to_number v)
      then (Suc (fst acc), js_add (snd acc) (to_number v)) else acc)"

definition d3_mean :: "jsnum list \<Rightarrow> jsnum" where
  "d3_mean vs =
     (let (count, sum) = foldl d3_mean_step (0, Num 0) vs
      in if count \<noteq> 0 then js_div sum (Num (of_nat count)) else Undefined)"

record cell =
  year :: jsnum
  month :: jsnum
  avgMax :: jsnum
  avgMin :: jsnum
  days :: "row list"

definition row_month :: "row \<Rightarrow> jsnum" where
  "row_month d = getMonth (date d)"

definition aggregateByYearMonth :: "row list \<Rightarrow> cell list" where
  "aggregateByYearMonth data =
     (let grouped = d3_group data row_year row_month
      in concat (map (\<lambda>(year, monthMap).
           map (\<lambda>(month, days).
             \<lparr>year = year, month = month,
              avgMax = d3_mean (map maxT days),
              avgMin = d3_mean (map minT days),
              days = days\<rparr>) monthMap) grouped))"

text \<open>
  The arithmetic mean of a sequence of values in JavaScript arithmetic: the sum of all of
  them over their number. One \<open>NaN\<close> makes it \<open>NaN\<close>.
\<close>

definition arithmetic_mean :: "jsnum list \<Rightarrow> jsnum" where
  "arithmetic_mean vs = js_div (foldl js_add (Num 0) vs) (Num (of_nat (length vs)))"

text \<open>The (year, month) pair of a row and of a cell.\<close>

definition row_ym :: "row \<Rightarrow> jsnum \<times> jsnum" where
  "row_ym d = (row_year d, row_month d)"

definition cell_ym :: "cell \<Rightarrow> jsnum \<times> jsnum" where
  "cell_ym c = (year c, month c)"

section \<open>Row parser\<close>

text \<open>
  A raw CSV row holds three texts. \<open>parseRow\<close> hands the date text to the \<open>Date\<close>
  constructor and coerces the two temperature texts with unary plus; both are built-ins
  of the host, taken as parameters here (unary plus gives \<open>NaN\<close> on text that is not a
  numeric literal, \<open>new Date\<close> gives an invalid date on text it cannot parse). There is no
  other check.
\<close>

record raw_row =
  raw_date :: string
  max_temperature :: string
  min_temperature :: string

definition parseRow :: "(string \<Rightarrow> jsdate) \<Rightarrow> (string \<Rightarrow> jsnum) \<Rightarrow> raw_row \<Rightarrow> row" where
  "parseRow new_Date unary_plus d =
     \<lparr>date = new_Date (raw_date d),
      maxT = unary_plus (max_temperature d),
      minT = unary_plus (min_temperature d)\<rparr>"

text \<open>What the host's built-ins answer on the texts of the sample rows below.\<close>

definition sample_Date :: "string \<Rightarrow> jsdate" where
  "sample_Date s =
     (if s = ''2020-01-01'' then LocalDate 2020 0 1
      else if s = ''2020-01-02'' then LocalDate 2020 0 2
      else InvalidDate)"

definition sample_plus :: "string \<Rightarrow> jsnum" where
  "sample_plus s =
     (if s = ''30'' then Num 30 else if s = ''20'' then Num 20
      else if s = ''10'' then Num 10 else NaN)"

text \<open>Two days of January 2020; the first has a malformed maximum.\<close>

definition ex_raw :: "raw_row list" where
  "ex_raw = [\<lparr>raw_date = ''2020-01-01'', max_temperature = ''n/a'', min_temperature = ''10''\<rparr>,
             \<lparr>raw_date = ''2020-01-02'', max_temperature = ''30'', min_temperature = ''20''\<rparr>]"

definition ex_nan :: "row list" where
  "ex_nan = [\<lparr>date = LocalDate 2020 0 1, maxT = NaN, minT = Num 10\<rparr>,
             \<lparr>date = LocalDate 2020 0 2, maxT = Num 30, minT = Num 20\<rparr>]"

text \<open>The average that \<open>d3.mean\<close> is proved to compute: the mean of the numbers, if any.\<close>

definition mean_of_numbers :: "jsnum list \<Rightarrow> jsnum" where
  "mean_of_numbers vs =
     (if filter is_num vs = [] then Undefined else arithmetic_mean (filter is_num vs))"

section \<open>Color scale\<close>

text \<open>
  \<open>buildColorScale\<close> is \<open>d3.scaleSequential(d3.interpolateRdYlBu).domain([TEMP_MAX, TEMP_MIN])\<close>.
  The interpolator is d3's uniform B-spline through the eleven colors of the RdYlBu
  scheme, channel by channel; it clamps its argument to [0, 1]. The resulting color is
  printed as \<open>rgb(r, g, b)\<close> with each channel rounded to an integer in 0..255. All of it
  is computed in double arithmetic, in the order in which d3 writes the operations.
\<close>

definition TEMP_MIN :: real where "TEMP_MIN = 0"
definition TEMP_MAX :: real where "TEMP_MAX = 40"

datatype color = Rgb int int int

text \<open>
  The scheme \<open>a50026 d73027 f46d43 fdae61 fee090 ffffbf e0f3f8 abd9e9 74add1 4575b4 313695\<close>,
  one list per channel.
\<close>

definition RdYlBu_r :: "real list" where
  "RdYlBu_r = [165, 215, 244, 253, 254, 255, 224, 171, 116, 69, 49]"

definition RdYlBu_g :: "real list" where
  "RdYlBu_g = [0, 48, 109, 174, 224, 255, 243, 217, 173, 117, 54]"

definition RdYlBu_b :: "real list" where
  "RdYlBu_b = [38, 39, 67, 97, 144, 191, 248, 233, 209, 180, 149]"

text \<open>
  \<open>((1 - 3 * t1 + 3 * t2 - t3) * v0 + (4 - 6 * t2 + 3 * t3) * v1
     + (1 + 3 * t1 + 3 * t2 - 3 * t3) * v2 + t3 * v3) / 6\<close>
  with \<open>t2 = t1 * t1\<close> and \<open>t3 = t2 * t1\<close>.
\<close>

definition basis :: "real \<Rightarrow> real \<Rightarrow> real \<Rightarrow> real \<Rightarrow> real \<Rightarrow> real" where
  "basis t1 v0 v1 v2 v3 =
     (let t2 = fmul t1 t1;
          t3 = fmul t2 t1;
          b0 = fsub (fadd (fsub 1 (fmul 3 t1)) (fmul 3 t2)) t3;
          b1 = fadd (fsub 4 (fmul 6 t2)) (fmul 3 t3);
          b2 = fsub (fadd (fadd 1 (fmul 3 t1)) (fmul 3 t2)) (fmul 3 t3)
      in fdiv (fadd (fadd (fadd (fmul b0 v0) (fmul b1 v1)) (fmul b2 v2)) (fmul t3 v3)) 6)"

text \<open>
  The spline on the segment \<open>i\<close>: the neighbours of the two control values, mirrored at
  the ends, and \<open>basis((t - i / n) * n, v0, v1, v2, v3)\<close>.
\<close>

definition spline_segment :: "real list \<Rightarrow> nat \<Rightarrow> real \<Rightarrow> real" where
  "spline_segment vals i t =
     (let n = length vals - 1;
          v1 = vals ! i;
          v2 = vals ! (i + 1);
          v0 = (if i > 0 then vals ! (i - 1) else fsub (fmul 2 v1) v2);
          v3 = (if i < n - 1 then vals ! (i + 2) else fsub (fmul 2 v2) v1)
      in basis (fmul (fsub t (fdiv (real i) (real n))) (real n)) v0 v1 v2 v3)"

text \<open>
  \<open>i = t <= 0 ? (t = 0) : t >= 1 ? (t = 1, n - 1) : Math.floor(t * n)\<close>. An argument that
  is \<open>NaN\<close> passes both tests, indexes no control value and gives \<open>NaN\<close>.
\<close>

definition basis_spline :: "real list \<Rightarrow> jsnum \<Rightarrow> jsnum" where
  "basis_spline vals t =
     (let n = length vals - 1
      in if js_ge (Num 0) t then Num (spline_segment vals 0 0)
         else if js_ge t (Num 1) then Num (spline_segment vals (n - 1) 1)
         else case t of
                Num v \<Rightarrow> Num (spline_segment vals (nat \<lfloor>fmul v (real n)\<rfloor>) v)
              | _ \<Rightarrow> NaN)"

text \<open>
  \<open>Math.max(0, Math.min(255, Math.round(value) || 0))\<close>; \<open>Math.round\<close> answers the nearest
  integer, a tie going up.
\<close>

fun clampi :: "jsnum \<Rightarrow> int" where
  "clampi (Num v) = max 0 (min 255 \<lfloor>v + 1 / 2\<rfloor>)"
| "clampi PInf = 255"
| "clampi _ = 0"

definition interpolateRdYlBu :: "jsnum \<Rightarrow> color" where
  "interpolateRdYlBu t =
     Rgb (clampi (basis_spline RdYlBu_r t))
         (clampi (basis_spline RdYlBu_g t))
         (clampi (basis_spline RdYlBu_b t))"

text \<open>
  A sequential scale with domain \<open>[x0, x1]\<close> answers \<open>unknown\<close> (that is \<open>undefined\<close>, here
  \<open>None\<close>) on \<open>undefined\<close> and \<open>NaN\<close>. Otherwise it hands the interpolator
  \<open>k10 === 0 ? 0.5 : (x - x0) * k10\<close> with \<open>k10 = x0 === x1 ? 0 : 1 / (x1 - x0)\<close>; it does
  not clamp by itself.
\<close>

definition sequential_arg :: "real \<Rightarrow> real \<Rightarrow> jsnum \<Rightarrow> jsnum" where
  "sequential_arg x0 x1 x =
     (let k10 = (if x0 = x1 then 0 else fdiv 1 (fsub x1 x0))
      in if k10 = 0 then Num (1 / 2) else js_fmul (js_fsub x (Num x0)) (Num k10))"

definition scaleSequential :: "(jsnum \<Rightarrow> 'c) \<Rightarrow> real \<Rightarrow> real \<Rightarrow> jsnum \<Rightarrow> 'c option" where
  "scaleSequential interpolator x0 x1 x =
     (case to_number x of
        NaN \<Rightarrow> None
      | v \<Rightarrow> Some (interpolator (sequential_arg x0 x1 v)))"

definition buildColorScale :: "jsnum \<Rightarrow> color option" where
  "buildColorScale = scaleSequential interpolateRdYlBu TEMP_MAX TEMP_MIN"

section \<open>The matrix and the click handler\<close>

text \<open>
  What the page shows, as far as the toggle is concerned: the module-level \<open>mode\<close>
  (\<open>"max"\<close> or \<open>"min"\<close>), the cells bound as data to the \<open>rect.cell\<close> elements, their
  \<open>fill\<close> attributes (absent, \<open>None\<close>, where the scale answers \<open>undefined\<close>), and the text
  of \<open>#mode-label\<close>. A transition is represented by the values it ends on.
\<close>

datatype display_mode = Mode_max | Mode_min

record chart =
  mode :: display_mode
  bound :: "cell list"
  fills :: "color option list"
  label :: string

text \<open>
  \<open>drawMatrix\<close> binds the cells and fills each rectangle by its \<open>avgMax\<close>; it does not
  write the label, whose first text comes from the page and is a parameter. \<open>mode\<close> starts
  as \<open>"max"\<close>.
\<close>

definition drawMatrix :: "cell list \<Rightarrow> string \<Rightarrow> chart" where
  "drawMatrix cells page_label =
     (let colorScale = buildColorScale;
          initialAccessor = avgMax
      in \<lparr>mode = Mode_max, bound = cells,
          fills = map (\<lambda>d. colorScale (initialAccessor d)) cells,
          label = page_label\<rparr>)"

definition click :: "chart \<Rightarrow> chart" where
  "click s =
     (let mode' = (if mode s = Mode_max then Mode_min else Mode_max);
          colorScale = buildColorScale;
          accessor = (if mode' = Mode_max then avgMax else avgMin)
      in s\<lparr>mode := mode',
            fills := map (\<lambda>d. colorScale (accessor d)) (bound s),
            label := ''Showing: '' @ (if mode' = Mode_max then ''Max'' else ''Min'') @ '' Temp''\<rparr>)"

section \<open>Scales and sparklines\<close>

definition cellWidth :: real where "cellWidth = 80"
definition cellHeight :: real where "cellHeight = 50"
definition pad :: real where "pad = 4"

text \<open>A scale's domain keeps the first occurrence of each value.\<close>

definition keep_first :: "'a list \<Rightarrow> 'a list" where
  "keep_first xs = foldl (\<lambda>acc x. if x \<in> set acc then acc else acc @ [x]) [] xs"

text \<open>
  \<open>d3.scaleBand().domain(dmn).range([r0, r1]).padding(p)\<close>: inner and outer padding are
  both \<open>p\<close>, the alignment is 0.5 and nothing is rounded. A value outside the domain is
  mapped to \<open>undefined\<close>.
\<close>

definition band_step :: "nat \<Rightarrow> real \<Rightarrow> real \<Rightarrow> real \<Rightarrow> real" where
  "band_step n r0 r1 p =
     (let reverse = r1 < r0;
          start = (if reverse then r1 else r0);
          stop = (if reverse then r0 else r1)
      in (stop - start) / max 1 (real n - min 1 p + p * 2))"

definition band_values :: "nat \<Rightarrow> real \<Rightarrow> real \<Rightarrow> real \<Rightarrow> real list" where
  "band_values n r0 r1 p =
     (let reverse = r1 < r0;
          start = (if reverse then r1 else r0);
          stop = (if reverse then r0 else r1);
          step = band_step n r0 r1 p;
          start' = start + (stop - start - step * (real n - min 1 p)) * (1 / 2);
          vals = map (\<lambda>i. start' + step * real i) [0..<n]
      in if reverse then rev vals else vals)"

definition scaleBand :: "jsnum list \<Rightarrow> real \<Rightarrow> real \<Rightarrow> real \<Rightarrow> jsnum \<Rightarrow> jsnum" where
  "scaleBand dmn r0 r1 p d =
     (let domain = keep_first dmn
      in case map_of (zip domain (band_values (length domain) r0 r1 p)) d of
           None \<Rightarrow> Undefined
         | Some v \<Rightarrow> Num v)"

definition bandwidth :: "jsnum list \<Rightarrow> real \<Rightarrow> real \<Rightarrow> real \<Rightarrow> real" where
  "bandwidth dmn r0 r1 p = band_step (length (keep_first dmn)) r0 r1 p * (1 - min 1 p)"

definition xScale :: "jsnum list \<Rightarrow> jsnum \<Rightarrow> jsnum" where
  "xScale years = scaleBand years 0 (real (length years) * cellWidth) (5 / 100)"

definition yScale :: "jsnum \<Rightarrow> jsnum" where
  "yScale = scaleBand (map (\<lambda>i. Num (real i)) [0..<12]) 0 (12 * cellHeight) (5 / 100)"

definition cellW :: "jsnum list \<Rightarrow> real" where
  "cellW years = bandwidth years 0 (real (length years) * cellWidth) (5 / 100)"

definition cellH :: real where
  "cellH = bandwidth (map (\<lambda>i. Num (real i)) [0..<12]) 0 (12 * cellHeight) (5 / 100)"

text \<open>
  \<open>d3.scaleLinear().domain([d0, d1]).range([r0, r1])\<close>. An input that is \<open>undefined\<close> or
  \<open>NaN\<close> is mapped to \<open>undefined\<close>. Otherwise the input is normalised over the domain
  (a domain of width zero gives 0.5, a \<open>NaN\<close> width gives \<open>NaN\<close>) and interpolated as
  \<open>r0 * (1 - t) + r1 * t\<close>; a descending domain is turned round with its range.
\<close>

fun truthy :: "jsnum \<Rightarrow> bool" where
  "truthy (Num v) = (v \<noteq> 0)"
| "truthy PInf = True"
| "truthy NInf = True"
| "truthy _ = False"

definition normalize :: "jsnum \<Rightarrow> jsnum \<Rightarrow> jsnum \<Rightarrow> jsnum" where
  "normalize a b x =
     (let a' = to_number a;
          b' = js_sub (to_number b) a'
      in if truthy b' then js_div (js_sub x a') b'
         else if b' = NaN then NaN else Num (1 / 2))"

definition interpolateNumber :: "jsnum \<Rightarrow> jsnum \<Rightarrow> jsnum \<Rightarrow> jsnum" where
  "interpolateNumber a b t = js_add (js_mul a (js_sub (Num 1) t)) (js_mul b t)"

definition scaleLinear :: "jsnum \<Rightarrow> jsnum \<Rightarrow> jsnum \<Rightarrow> jsnum \<Rightarrow> jsnum \<Rightarrow> jsnum" where
  "scaleLinear d0 d1 r0 r1 x =
     (case to_number x of
        Num v \<Rightarrow>
          (if js_lt (to_number d1) (to_number d0)
           then interpolateNumber r1 r0 (normalize d1 d0 (Num v))
           else interpolateNumber r0 r1 (normalize d0 d1 (Num v)))
      | _ \<Rightarrow> Undefined)"

text \<open>The global extremes over all days of all cells, cell by cell as the program does.\<close>

definition tempMin :: "cell list \<Rightarrow> jsnum" where
  "tempMin cells = d3_min (map (\<lambda>c. d3_min (map minT (days c))) cells)"

definition tempMax :: "cell list \<Rightarrow> jsnum" where
  "tempMax cells = d3_max (map (\<lambda>c. d3_max (map maxT (days c))) cells)"

definition sparkX :: "jsnum list \<Rightarrow> cell \<Rightarrow> jsnum \<Rightarrow> jsnum" where
  "sparkX years cell =
     (let cx = xScale years (year cell)
      in scaleLinear (Num 1) (Num (real (length (days cell))))
           (js_add cx (Num pad)) (js_sub (js_add cx (Num (cellW years))) (Num pad)))"

definition sparkY :: "cell list \<Rightarrow> cell \<Rightarrow> jsnum \<Rightarrow> jsnum" where
  "sparkY cells cell =
     (let cy = yScale (month cell)
      in scaleLinear (tempMin cells) (tempMax cells)
           (js_sub (js_add cy (Num cellH)) (Num pad)) (js_add cy (Num pad)))"

text \<open>The points of the two lines of a cell, and of every cell in cell order.\<close>

record sparkline =
  lineMax :: "(jsnum \<times> jsnum) list"
  lineMin :: "(jsnum \<times> jsnum) list"

definition cell_sparkline :: "cell list \<Rightarrow> jsnum list \<Rightarrow> cell \<Rightarrow> sparkline" where
  "cell_sparkline cells years cell =
     \<lparr>lineMax = map (\<lambda>(i, d). (sparkX years cell (Num (real (i + 1))), sparkY cells cell (maxT d)))
                  (enumerate 0 (days cell)),
      lineMin = map (\<lambda>(i, d). (sparkX years cell (Num (real (i + 1))), sparkY cells cell (minT d)))
                  (enumerate 0 (days cell))\<rparr>"

definition drawSparklines :: "cell list \<Rightarrow> jsnum list \<Rightarrow> sparkline list" where
  "drawSparklines cells years = map (cell_sparkline cells years) cells"

text \<open>All minima and all maxima of the days of all cells.\<close>

definition all_mins :: "cell list \<Rightarrow> jsnum list" where
  "all_mins cells = concat (map (\<lambda>c. map minT (days c)) cells)"

definition all_maxs :: "cell list \<Rightarrow> jsnum list" where
  "all_maxs cells = concat (map (\<lambda>c. map maxT (days c)) cells)"

text \<open>One day in each of two years, in different months.\<close>

definition ex_two_years :: "row list" where
  "ex_two_years = [\<lparr>date = LocalDate 2019 5 1, maxT = Num 31, minT = Num 25\<rparr>,
                   \<lparr>date = LocalDate 2020 0 1, maxT = Num 18, minT = Num 12\<rparr>]"



section \<open>The y-scale of the sparklines in double arithmetic\<close>

text \<open>
  The scales above are written with exact arithmetic. The program computes them in
  doubles; the definitions below are the same scales with every operation rounded, in the
  order in which d3 writes the operations. \<open>padding(0.05)\<close> stores the double nearest to
  0.05.
\<close>

definition band_step_dbl :: "nat \<Rightarrow> real \<Rightarrow> real \<Rightarrow> real \<Rightarrow> real" where
  "band_step_dbl n r0 r1 p =
     (let reverse = r1 < r0;
          start = (if reverse then r1 else r0);
          stop = (if reverse then r0 else r1);
          paddingOuter = dbl p;
          paddingInner = min 1 paddingOuter
      in fdiv (fsub stop start)
              (max 1 (fadd (fsub (real n) paddingInner) (fmul paddingOuter 2))))"

definition band_values_dbl :: "nat \<Rightarrow> real \<Rightarrow> real \<Rightarrow> real \<Rightarrow> real list" where
  "band_values_dbl n r0 r1 p =
     (let reverse = r1 < r0;
          start = (if reverse then r1 else r0);
          stop = (if reverse then r0 else r1);
          paddingInner = min 1 (dbl p);
          step = band_step_dbl n r0 r1 p;
          start' = fadd start
                     (fmul (fsub (fsub stop start) (fmul step (fsub (real n) paddingInner)))
                           (1 / 2));
          vals = map (\<lambda>i. fadd start' (fmul step (real i))) [0..<n]
      in if reverse then rev vals else vals)"

definition scaleBand_dbl :: "jsnum list \<Rightarrow> real \<Rightarrow> real \<Rightarrow> real \<Rightarrow> jsnum \<Rightarrow> jsnum" where
  "scaleBand_dbl dmn r0 r1 p d =
     (let domain = keep_first dmn
      in case map_of (zip domain (band_values_dbl (length domain) r0 r1 p)) d of
           None \<Rightarrow> Undefined
         | Some v \<Rightarrow> Num v)"

definition bandwidth_dbl :: "jsnum list \<Rightarrow> real \<Rightarrow> real \<Rightarrow> real \<Rightarrow> real" where
  "bandwidth_dbl dmn r0 r1 p =
     fmul (band_step_dbl (length (keep_first dmn)) r0 r1 p) (fsub 1 (min 1 (dbl p)))"

definition yScale_dbl :: "jsnum \<Rightarrow> jsnum" where
  "yScale_dbl = scaleBand_dbl (map (\<lambda>i. Num (real i)) [0..<12]) 0 (12 * cellHeight) (5 / 100)"

definition cellH_dbl :: real where
  "cellH_dbl = bandwidth_dbl (map (\<lambda>i. Num (real i)) [0..<12]) 0 (12 * cellHeight) (5 / 100)"

text \<open>
  \<open>d3.scaleLinear\<close>: \<open>normalize(a, b)\<close> is \<open>x => (x - a) / b\<close> with \<open>b -= a\<close>, or the constant
  0.5 (\<open>NaN\<close> for a \<open>NaN\<close> width) when the width is zero; the range is interpolated by
  \<open>t => a * (1 - t) + b * t\<close>. The scale answers \<open>undefined\<close> on \<open>undefined\<close> and \<open>NaN\<close> only.
\<close>

definition normalize_dbl :: "jsnum \<Rightarrow> jsnum \<Rightarrow> jsnum \<Rightarrow> jsnum" where
  "normalize_dbl a b x =
     (let a' = to_number a;
          b' = js_fsub (to_number b) a'
      in if truthy b' then js_fdiv (js_fsub x a') b'
         else if b' = NaN then NaN else Num (1 / 2))"

definition interpolateNumber_dbl :: "jsnum \<Rightarrow> jsnum \<Rightarrow> jsnum \<Rightarrow> jsnum" where
  "interpolateNumber_dbl a b t = js_fadd (js_fmul a (js_fsub (Num 1) t)) (js_fmul b t)"

definition scaleLinear_dbl :: "jsnum \<Rightarrow> jsnum \<Rightarrow> jsnum \<Rightarrow> jsnum \<Rightarrow> jsnum \<Rightarrow> jsnum" where
  "scaleLinear_dbl d0 d1 r0 r1 x =
     (case to_number x of
        NaN \<Rightarrow> Undefined
      | v \<Rightarrow>
          (if js_lt (to_number d1) (to_number d0)
           then interpolateNumber_dbl r1 r0 (normalize_dbl d1 d0 v)
           else interpolateNumber_dbl r0 r1 (normalize_dbl d0 d1 v)))"

definition sparkY_dbl :: "cell list \<Rightarrow> cell \<Rightarrow> jsnum \<Rightarrow> jsnum" where
  "sparkY_dbl cells cell =
     (let cy = yScale_dbl (month cell)
      in scaleLinear_dbl (tempMin cells) (tempMax cells)
           (js_fsub (js_fadd cy (Num cellH_dbl)) (Num pad)) (js_fadd cy (Num pad)))"

section \<open>Facts about double arithmetic\<close>

lemma pow2_powr: "pow2 e = 2 powr (real_of_int e)"
proof (cases "0 \<le> e")
  case True
  then have "2 powr (real_of_int e) = (2::real) ^ nat e"
    by (metis of_nat_nat powr_realpow zero_less_numeral of_int_of_nat_eq)
  with True show ?thesis by (simp add: pow2_def)
next
  case False
  then have "real_of_int e = - real (nat (- e))" by simp
  then have "2 powr (real_of_int e) = 1 / (2::real) ^ nat (- e)"
    by (simp only: powr_minus powr_realpow zero_less_numeral inverse_eq_divide)
  with False show ?thesis by (simp add: pow2_def)
qed

lemma pow2_pos: "0 < pow2 e"
  by (simp add: pow2_powr)

lemma pow2_add: "pow2 (a + b) = pow2 a * pow2 b"
  by (simp add: pow2_powr powr_add)

lemma pow2_less_iff: "pow2 a < pow2 b \<longleftrightarrow> a < b"
  by (simp add: pow2_powr)

lemma pow2_le_iff: "pow2 a \<le> pow2 b \<longleftrightarrow> a \<le> b"
  by (simp add: pow2_powr)

lemma pow2_nat: "0 \<le> e \<Longrightarrow> pow2 e = 2 ^ nat e"
  by (simp add: pow2_def)

lemma real_pow2_le: "(2::int) ^ k \<le> m \<Longrightarrow> (2::real) ^ k \<le> real_of_int m"
  by (metis of_int_le_iff of_int_numeral of_int_power)

lemma real_le_pow2: "m \<le> (2::int) ^ k \<Longrightarrow> real_of_int m \<le> (2::real) ^ k"
  by (metis of_int_le_iff of_int_numeral of_int_power)

lemma ilog2_bounds:
  assumes "x \<noteq> 0"
  shows "pow2 (ilog2 x) \<le> \<bar>x\<bar>" and "\<bar>x\<bar> < pow2 (ilog2 x + 1)"
proof -
  define a where "a = \<bar>x\<bar>"
  have a: "0 < a" using assms by (simp add: a_def)
  have "pow2 (ilog2 x) \<le> a \<and> a < pow2 (ilog2 x + 1)"
  proof (cases "1 \<le> a")
    case True
    define m where "m = \<lfloor>a\<rfloor>"
    have m: "0 < m" using True by (simp add: m_def)
    have il: "ilog2 x = bitlen m - 1" using True by (simp add: ilog2_def a_def m_def)
    have b1: "1 \<le> bitlen m" using m by (auto simp: bitlen_alt_def)
    define k where "k = nat (bitlen m - 1)"
    have k: "bitlen m - 1 = int k" "nat (bitlen m) = Suc k" using b1 by (simp_all add: k_def)
    from bitlen_bounds [OF m] have lo: "2 ^ k \<le> m" and hi: "m < 2 ^ Suc k"
      unfolding k_def [symmetric] k(2) by blast+
    have p1: "pow2 (ilog2 x) = 2 ^ k" unfolding il k(1) by (simp add: pow2_def)
    have p2: "pow2 (ilog2 x + 1) = 2 ^ Suc k" unfolding il k(1) by (simp add: pow2_def nat_add_distrib)
    have ma: "real_of_int m \<le> a" "a < real_of_int (m + 1)" by (simp_all add: m_def)
    have "(2::real) ^ k \<le> real_of_int m" using lo by (rule real_pow2_le)
    with ma(1) have 1: "pow2 (ilog2 x) \<le> a" unfolding p1 by linarith
    from hi have "m + 1 \<le> 2 ^ Suc k" by simp
    then have "real_of_int (m + 1) \<le> (2::real) ^ Suc k" by (rule real_le_pow2)
    with ma(2) have 2: "a < pow2 (ilog2 x + 1)" unfolding p2 by linarith
    from 1 2 show ?thesis ..
  next
    case False
    define y where "y = 1 / a"
    have y: "1 < y" using False a by (simp add: y_def)
    define m where "m = \<lceil>y\<rceil> - 1"
    have "2 \<le> \<lceil>y\<rceil>" using y by linarith
    then have m: "0 < m" by (simp add: m_def)
    have il: "ilog2 x = - bitlen m" using False by (simp add: ilog2_def a_def m_def y_def)
    have b1: "1 \<le> bitlen m" using m by (auto simp: bitlen_alt_def)
    define k where "k = nat (bitlen m - 1)"
    have k: "bitlen m = int (Suc k)" "nat (bitlen m) = Suc k" "bitlen m - 1 = int k"
      using b1 by (simp_all add: k_def)
    from bitlen_bounds [OF m] have lo: "2 ^ k \<le> m" and hi: "m < 2 ^ Suc k"
      unfolding k_def [symmetric] k(2) by blast+
    have "nat (int k + 1) = Suc k" by simp
    then have p1: "pow2 (ilog2 x) = 1 / 2 ^ Suc k" unfolding il k(1) by (simp add: pow2_def)
    have "- bitlen m + 1 = - int k" using k(3) by simp
    then have p2: "pow2 (ilog2 x + 1) = 1 / 2 ^ k" unfolding il by (simp add: pow2_def)
    have my: "real_of_int m < y" "y \<le> real_of_int (m + 1)"
      unfolding m_def by linarith+
    from hi have "m + 1 \<le> 2 ^ Suc k" by simp
    then have "real_of_int (m + 1) \<le> (2::real) ^ Suc k" by (rule real_le_pow2)
    with my(2) have "y \<le> 2 ^ Suc k" by linarith
    then have "1 / 2 ^ Suc k \<le> a"
      using a unfolding y_def by (simp add: field_simps)
    then have 1: "pow2 (ilog2 x) \<le> a" unfolding p1 .
    have "(2::real) ^ k \<le> real_of_int m" using lo by (rule real_pow2_le)
    with my(1) have "2 ^ k < y" by linarith
    then have "a < 1 / 2 ^ k"
      using a unfolding y_def by (simp add: field_simps)
    then have 2: "a < pow2 (ilog2 x + 1)" unfolding p2 .
    from 1 2 show ?thesis ..
  qed
  then show "pow2 (ilog2 x) \<le> \<bar>x\<bar>" and "\<bar>x\<bar> < pow2 (ilog2 x + 1)"
    by (simp_all add: a_def)
qed


lemma rne_cases: "rne y = \<lfloor>y\<rfloor> \<or> rne y = \<lfloor>y\<rfloor> + 1"
  by (simp add: rne_def Let_def)

lemma rne_of_int: "rne (of_int n) = n"
  by (simp add: rne_def Let_def)

lemma rne_mono: assumes "y \<le> z" shows "rne y \<le> rne z"
proof (cases "\<lfloor>y\<rfloor> = \<lfloor>z\<rfloor>")
  case True
  from assms have "y - of_int \<lfloor>z\<rfloor> \<le> z - of_int \<lfloor>z\<rfloor>" by simp
  then show ?thesis unfolding rne_def Let_def True by auto
next
  case False
  with assms have "\<lfloor>y\<rfloor> < \<lfloor>z\<rfloor>" by (simp add: floor_mono order.not_eq_order_implies_strict)
  moreover have "rne y \<le> \<lfloor>y\<rfloor> + 1" using rne_cases [of y] by auto
  moreover have "\<lfloor>z\<rfloor> \<le> rne z" using rne_cases [of z] by auto
  ultimately show ?thesis by linarith
qed

lemma rne_ge: "of_int a \<le> y \<Longrightarrow> a \<le> rne y"
  using rne_mono [of "of_int a" y] by (simp add: rne_of_int)

lemma rne_le: "y \<le> of_int b \<Longrightarrow> rne y \<le> b"
  using rne_mono [of y "of_int b"] by (simp add: rne_of_int)

lemma rne_minus: "rne (- y) = - rne y"
proof (cases "y = of_int \<lfloor>y\<rfloor>")
  case True
  then obtain n where "y = of_int n" ..
  then have "- y = of_int (- n)" by simp
  then show ?thesis using \<open>y = of_int n\<close> by (simp only: rne_of_int)
next
  case False
  define f where "f = \<lfloor>y\<rfloor>"
  define d where "d = y - of_int f"
  have d: "0 < d" "d < 1" using False unfolding d_def f_def by linarith+
  have "real_of_int (- f - 1) \<le> - y" "- y < real_of_int (- f - 1) + 1"
    using d unfolding d_def by simp_all
  then have fl: "\<lfloor>- y\<rfloor> = - f - 1" by (rule floor_unique)
  have d': "- y - of_int (- f - 1) = 1 - d" by (simp add: d_def)
  have ry: "rne y = (if d < 1 / 2 \<or> (d = 1 / 2 \<and> even f) then f else f + 1)"
    by (simp add: rne_def Let_def f_def d_def)
  have rm: "rne (- y) = (if 1 - d < 1 / 2 \<or> (1 - d = 1 / 2 \<and> even (- f - 1)) then - f - 1 else - f)"
    unfolding rne_def Let_def fl d' by simp
  show ?thesis unfolding ry rm using d by auto
qed

lemma dbl_zero: "dbl 0 = 0"
  by (simp add: dbl_def)

lemma ilog2_minus: "ilog2 (- x) = ilog2 x"
  by (simp add: ilog2_def)

lemma ulp_exp_minus: "ulp_exp (- x) = ulp_exp x"
  by (simp add: ulp_exp_def ilog2_minus)

lemma dbl_minus: "dbl (- x) = - dbl x"
  by (simp add: dbl_def ulp_exp_minus Let_def rne_minus)

lemma dbl_eq: "x \<noteq> 0 \<Longrightarrow> dbl x = pow2 (ulp_exp x) * of_int (rne (x / pow2 (ulp_exp x)))"
  by (simp add: dbl_def Let_def)

lemma pow2_shift: "pow2 (e + 52) = pow2 e * 2 ^ 52" "pow2 (e + 53) = pow2 e * 2 ^ 53"
  unfolding pow2_add by (simp_all add: pow2_def)

lemma dbl_upper:
  assumes "0 < x"
  shows "dbl x \<le> pow2 (ulp_exp x + 53)"
proof -
  define u where "u = pow2 (ulp_exp x)"
  have u: "0 < u" by (simp add: u_def pow2_pos)
  have x: "x \<noteq> 0" using assms by simp
  have "ilog2 x + 1 \<le> ulp_exp x + 53" by (simp add: ulp_exp_def)
  then have "pow2 (ilog2 x + 1) \<le> pow2 (ulp_exp x + 53)" by (simp add: pow2_le_iff)
  moreover have "x < pow2 (ilog2 x + 1)" using ilog2_bounds(2) [OF x] assms by simp
  ultimately have "x \<le> u * 2 ^ 53" unfolding pow2_shift u_def by linarith
  then have "x / u \<le> real_of_int (2 ^ 53)" using u by (simp add: field_simps)
  then have "rne (x / u) \<le> 2 ^ 53" by (rule rne_le)
  then have "real_of_int (rne (x / u)) \<le> 2 ^ 53" by (rule real_le_pow2)
  then have "u * of_int (rne (x / u)) \<le> u * 2 ^ 53" using u by simp
  then show ?thesis unfolding dbl_eq [OF x] pow2_shift u_def .
qed

lemma dbl_lower:
  assumes "0 < x" "- 1022 \<le> ilog2 x"
  shows "pow2 (ilog2 x) \<le> dbl x"
proof -
  define u where "u = pow2 (ulp_exp x)"
  have u: "0 < u" by (simp add: u_def pow2_pos)
  have x: "x \<noteq> 0" using assms by simp
  have e: "ilog2 x = ulp_exp x + 52" using assms(2) by (simp add: ulp_exp_def)
  have "pow2 (ilog2 x) \<le> x" using ilog2_bounds(1) [OF x] assms by simp
  then have "u * 2 ^ 52 \<le> x" unfolding e pow2_shift u_def .
  then have "real_of_int (2 ^ 52) \<le> x / u" using u by (simp add: field_simps)
  then have "2 ^ 52 \<le> rne (x / u)" by (rule rne_ge)
  then have "(2::real) ^ 52 \<le> of_int (rne (x / u))" by (rule real_pow2_le)
  then have "u * 2 ^ 52 \<le> u * of_int (rne (x / u))" using u by simp
  then show ?thesis unfolding dbl_eq [OF x] e pow2_shift u_def .
qed

lemma dbl_nonneg: assumes "0 \<le> x" shows "0 \<le> dbl x"
proof (cases "x = 0")
  case True then show ?thesis by (simp add: dbl_zero)
next
  case False
  have "real_of_int 0 \<le> x / pow2 (ulp_exp x)" using assms pow2_pos [of "ulp_exp x"] by simp
  then have "0 \<le> rne (x / pow2 (ulp_exp x))" by (rule rne_ge)
  then show ?thesis unfolding dbl_eq [OF False] using pow2_pos [of "ulp_exp x"] by simp
qed

lemma ulp_exp_mono:
  assumes "0 < x" "x \<le> y"
  shows "ulp_exp x \<le> ulp_exp y"
proof -
  have y: "0 < y" using assms by linarith
  have "pow2 (ilog2 x) \<le> x" using ilog2_bounds(1) [of x] assms by simp
  also have "x \<le> y" by fact
  also have "y < pow2 (ilog2 y + 1)" using ilog2_bounds(2) [of y] y by simp
  finally have "ilog2 x < ilog2 y + 1" by (simp add: pow2_less_iff)
  then show ?thesis by (simp add: ulp_exp_def)
qed

lemma dbl_mono_pos:
  assumes "0 < x" "x \<le> y"
  shows "dbl x \<le> dbl y"
proof -
  have y: "0 < y" using assms by linarith
  from ulp_exp_mono [OF assms] consider "ulp_exp x = ulp_exp y" | "ulp_exp x < ulp_exp y"
    by linarith
  then show ?thesis
  proof cases
    case 1
    define u where "u = pow2 (ulp_exp y)"
    have u: "0 < u" by (simp add: u_def pow2_pos)
    have "x / u \<le> y / u" using assms u by (simp add: divide_right_mono)
    then have "rne (x / u) \<le> rne (y / u)" by (rule rne_mono)
    then have "u * of_int (rne (x / u)) \<le> u * of_int (rne (y / u))" using u by simp
    then show ?thesis using assms y 1 by (simp add: dbl_def Let_def u_def)
  next
    case 2
    then have n: "- 1022 \<le> ilog2 y" and e: "ulp_exp x + 53 \<le> ilog2 y"
      unfolding ulp_exp_def by linarith+
    have "dbl x \<le> pow2 (ulp_exp x + 53)" using assms(1) by (rule dbl_upper)
    also have "\<dots> \<le> pow2 (ilog2 y)" using e by (simp add: pow2_le_iff)
    also have "\<dots> \<le> dbl y" using y n by (rule dbl_lower)
    finally show ?thesis .
  qed
qed

lemma dbl_mono: assumes "x \<le> y" shows "dbl x \<le> dbl y"
proof -
  consider "0 < x" | "x \<le> 0" "0 \<le> y" | "y < 0" by linarith
  then show ?thesis
  proof cases
    case 1 then show ?thesis using assms by (rule dbl_mono_pos)
  next
    case 2
    from 2(1) have "0 \<le> dbl (- x)" by (intro dbl_nonneg) simp
    then have "dbl x \<le> 0" by (simp add: dbl_minus)
    also have "0 \<le> dbl y" using 2(2) by (rule dbl_nonneg)
    finally show ?thesis .
  next
    case 3
    then have "0 < - y" "- y \<le> - x" using assms by simp_all
    then have "dbl (- y) \<le> dbl (- x)" by (rule dbl_mono_pos)
    then show ?thesis by (simp add: dbl_minus)
  qed
qed

lemma ilog2_unique:
  assumes "pow2 e \<le> \<bar>x\<bar>" "\<bar>x\<bar> < pow2 (e + 1)"
  shows "ilog2 x = e"
proof -
  have x: "x \<noteq> 0" using assms(1) pow2_pos [of e] by auto
  have "pow2 e < pow2 (ilog2 x + 1)" using assms(1) ilog2_bounds(2) [OF x] by linarith
  moreover have "pow2 (ilog2 x) < pow2 (e + 1)" using assms(2) ilog2_bounds(1) [OF x] by linarith
  ultimately show ?thesis by (simp add: pow2_less_iff)
qed

lemma rne_near: assumes "\<bar>y - of_int m\<bar> < 1 / 2" shows "rne y = m"
proof -
  consider "of_int m \<le> y" | "y < of_int m" by linarith
  then show ?thesis
  proof cases
    case 1
    with assms have "\<lfloor>y\<rfloor> = m" by (intro floor_unique) linarith+
    with 1 assms show ?thesis by (auto simp: rne_def Let_def)
  next
    case 2
    have "real_of_int (m - 1) \<le> y" "y < real_of_int (m - 1) + 1"
      using 2 assms by (simp; linarith)+
    then have f: "\<lfloor>y\<rfloor> = m - 1" by (rule floor_unique)
    have "\<not> (y - of_int (m - 1) < 1 / 2)" "y - of_int (m - 1) \<noteq> 1 / 2"
      using 2 assms by (simp; linarith)+
    then show ?thesis unfolding rne_def Let_def f by simp
  qed
qed

lemma rne_tie: assumes "\<bar>y - of_int m\<bar> = 1 / 2" "even m" shows "rne y = m"
proof -
  consider "y = of_int m + 1 / 2" | "y = of_int m - 1 / 2" using assms(1) by linarith
  then show ?thesis
  proof cases
    case 1
    then have "\<lfloor>y\<rfloor> = m" by (intro floor_unique) simp_all
    with 1 assms(2) show ?thesis by (simp add: rne_def Let_def)
  next
    case 2
    then have f: "\<lfloor>y\<rfloor> = m - 1" by (intro floor_unique) simp_all
    have "y - of_int (m - 1) = 1 / 2" using 2 by simp
    moreover have "odd (m - 1)" using assms(2) by simp
    ultimately show ?thesis unfolding rne_def Let_def f by simp
  qed
qed

lemma dbl_cert_aux:
  assumes u: "u = pow2 k" and k: "- 1074 \<le> k"
    and lo: "u * 2 ^ 52 \<le> \<bar>x\<bar>" and hi: "\<bar>x\<bar> < u * 2 ^ 53"
  shows "x \<noteq> 0" "ulp_exp x = k"
proof -
  have up: "0 < u" by (simp add: u pow2_pos)
  then show x: "x \<noteq> 0" using lo by auto
  have "pow2 (k + 52) \<le> \<bar>x\<bar>" "\<bar>x\<bar> < pow2 (k + 52 + 1)"
    using lo hi pow2_shift [of k] by (simp_all add: u add.assoc)
  then have "ilog2 x = k + 52" by (rule ilog2_unique)
  then show "ulp_exp x = k" using k by (simp add: ulp_exp_def)
qed

lemma dbl_cert:
  assumes u: "u = pow2 k" and k: "- 1074 \<le> k"
    and lo: "u * 2 ^ 52 \<le> \<bar>x\<bar>" and hi: "\<bar>x\<bar> < u * 2 ^ 53"
    and r: "r = of_int m * u" and near: "\<bar>x - r\<bar> * 2 < u"
  shows "dbl x = r"
proof -
  note aux = dbl_cert_aux [OF u k lo hi]
  have up: "0 < u" by (simp add: u pow2_pos)
  have "\<bar>x / u - of_int m\<bar> = \<bar>x - r\<bar> / u" using up by (simp add: r field_simps abs_if)
  also have "\<dots> < 1 / 2" using near up by (simp add: field_simps)
  finally have "rne (x / u) = m" by (rule rne_near)
  then show ?thesis using aux by (simp add: dbl_def Let_def u [symmetric] r)
qed

lemma dbl_cert_tie:
  assumes u: "u = pow2 k" and k: "- 1074 \<le> k"
    and lo: "u * 2 ^ 52 \<le> \<bar>x\<bar>" and hi: "\<bar>x\<bar> < u * 2 ^ 53"
    and r: "r = of_int m * u" and tie: "\<bar>x - r\<bar> * 2 = u" and ev: "even m"
  shows "dbl x = r"
proof -
  note aux = dbl_cert_aux [OF u k lo hi]
  have up: "0 < u" by (simp add: u pow2_pos)
  have "\<bar>x / u - of_int m\<bar> = \<bar>x - r\<bar> / u" using up by (simp add: r field_simps abs_if)
  also have "\<dots> = 1 / 2" using tie up by (simp add: field_simps)
  finally have "rne (x / u) = m" using ev by (rule rne_tie)
  then show ?thesis using aux by (simp add: dbl_def Let_def u [symmetric] r)
qed

text \<open>A double is its own rounding; so is every integer below \<open>2^53\<close>.\<close>

lemma dbl_exact:
  assumes x: "x = of_int m * pow2 k" and k: "- 1074 \<le> k" and m: "\<bar>m\<bar> < 2 ^ 53"
  shows "dbl x = x"
proof (cases "x = 0")
  case True then show ?thesis by (simp add: dbl_zero)
next
  case False
  define e where "e = ulp_exp x"
  have "\<bar>real_of_int m\<bar> < 2 ^ 53" using m by (metis of_int_abs of_int_less_iff of_int_numeral of_int_power)
  then have "\<bar>x\<bar> < pow2 k * 2 ^ 53" using pow2_pos [of k] by (simp add: x abs_mult mult.commute)
  then have "\<bar>x\<bar> < pow2 (k + 53)" by (simp add: pow2_shift)
  with ilog2_bounds(1) [OF False] have "pow2 (ilog2 x) < pow2 (k + 53)" by linarith
  then have "ilog2 x < k + 53" by (simp add: pow2_less_iff)
  with k have e: "e \<le> k" unfolding e_def ulp_exp_def by linarith
  define j where "j = nat (k - e)"
  have "k = e + int j" using e by (simp add: j_def)
  moreover have "pow2 (int j) = 2 ^ j" by (simp add: pow2_def)
  ultimately have "pow2 k = pow2 e * 2 ^ j" by (simp only: pow2_add)
  then have "x / pow2 e = of_int (m * 2 ^ j)" using pow2_pos [of e] by (simp add: x)
  then have "rne (x / pow2 e) = m * 2 ^ j" by (simp only: rne_of_int)
  then have "dbl x = pow2 e * of_int (m * 2 ^ j)" using False by (simp add: dbl_def Let_def e_def)
  also have "\<dots> = x" using \<open>pow2 k = pow2 e * 2 ^ j\<close> by (simp add: x)
  finally show ?thesis .
qed

lemma dbl_of_int: "\<bar>n\<bar> < 2 ^ 53 \<Longrightarrow> dbl (of_int n) = of_int n"
  by (rule dbl_exact [where m = n and k = 0]) (simp_all add: pow2_def)

lemma dbl_numeral: "(numeral w :: int) < 2 ^ 53 \<Longrightarrow> dbl (numeral w) = numeral w"
  using dbl_of_int [of "numeral w"] by simp

lemma dbl_neg_numeral: "(numeral w :: int) < 2 ^ 53 \<Longrightarrow> dbl (- numeral w) = - numeral w"
  using dbl_of_int [of "- numeral w"] by simp

lemma dbl_one: "dbl 1 = 1"
  using dbl_of_int [of 1] by simp









text \<open>The rounding error, and the finite range.\<close>

lemma rne_error: "\<bar>of_int (rne y) - y\<bar> \<le> 1 / 2"
proof -
  define f where "f = \<lfloor>y\<rfloor>"
  define d where "d = y - of_int f"
  have d: "0 \<le> d" "d < 1" unfolding d_def f_def by linarith+
  have y: "y = of_int f + d" by (simp add: d_def)
  have "rne y = (if d < 1 / 2 \<or> (d = 1 / 2 \<and> even f) then f else f + 1)"
    by (simp add: rne_def Let_def f_def d_def)
  then show ?thesis using d unfolding y by (auto simp: abs_if)
qed

lemma dbl_error:
  assumes x: "\<bar>x\<bar> < pow2 (e + 1)" and e: "- 1022 \<le> e"
  shows "\<bar>dbl x - x\<bar> \<le> pow2 (e - 53)"
proof (cases "x = 0")
  case True then show ?thesis using pow2_pos [of "e - 53"] by (simp add: dbl_zero)
next
  case False
  define u where "u = pow2 (ulp_exp x)"
  have u: "0 < u" by (simp add: u_def pow2_pos)
  from ilog2_bounds(1) [OF False] x have "pow2 (ilog2 x) < pow2 (e + 1)" by linarith
  then have "ilog2 x \<le> e" by (simp add: pow2_less_iff)
  with e have "ulp_exp x \<le> e - 52" by (simp add: ulp_exp_def)
  then have "u \<le> pow2 (e - 52)" by (simp add: u_def pow2_le_iff)
  moreover have "pow2 (e - 52) = pow2 (e - 53) * 2"
    using pow2_add [of "e - 53" 1] by (simp add: pow2_def)
  ultimately have ub: "u / 2 \<le> pow2 (e - 53)" by simp
  have "dbl x - x = u * (of_int (rne (x / u)) - x / u)"
    using False u by (simp add: dbl_def Let_def u_def algebra_simps)
  then have "\<bar>dbl x - x\<bar> = u * \<bar>of_int (rne (x / u)) - x / u\<bar>"
    using u by (simp add: abs_mult)
  also have "\<dots> \<le> u * (1 / 2)" using u rne_error [of "x / u"] by (intro mult_left_mono) simp_all
  finally show ?thesis using ub by simp
qed

lemma dbl_error_2048: "\<bar>x\<bar> < 2048 \<Longrightarrow> \<bar>dbl x - x\<bar> \<le> 1 / 2 ^ 43"
  using dbl_error [of x 10] by (simp add: pow2_def)

lemma dbl_error_2: "\<bar>x\<bar> < 2 \<Longrightarrow> \<bar>dbl x - x\<bar> \<le> 1 / 2 ^ 53"
  using dbl_error [of x 0] by (simp add: pow2_def)

lemma dbl_max_double: "dbl max_double = max_double"
  by (rule dbl_exact [where m = "2 ^ 53 - 1" and k = 971]) (simp_all add: max_double_def pow2_def)

lemma js_round_finite: "\<bar>x\<bar> \<le> max_double \<Longrightarrow> js_round (Num x) = Num (dbl x)"
proof -
  assume a: "\<bar>x\<bar> \<le> max_double"
  then have "dbl x \<le> dbl max_double" "dbl (- max_double) \<le> dbl x"
    by (intro dbl_mono; linarith)+
  then show ?thesis by (simp add: dbl_max_double dbl_minus Let_def)
qed

lemma max_double_large: "2048 \<le> max_double"
  by (simp add: max_double_def)

lemma js_round_small: "\<bar>x\<bar> \<le> 2048 \<Longrightarrow> js_round (Num x) = Num (dbl x)"
  using max_double_large by (intro js_round_finite) linarith

lemma dbl_unit: "0 \<le> x \<Longrightarrow> x \<le> 1 \<Longrightarrow> 0 \<le> dbl x \<and> dbl x \<le> 1"
  using dbl_mono [of 0 x] dbl_mono [of x 1] by (simp add: dbl_zero dbl_one)

section \<open>Facts about the reducers\<close>

lemma d3_max_step_simps:
  "d3_max_step mx Undefined = mx"
  "d3_max_step mx NaN = mx"
  "d3_max_step Undefined (Num x) = Num x"
  "d3_max_step (Num m) (Num x) = Num (max x m)"
  by (auto simp: d3_max_step_def[abs_def])

lemma d3_max_foldl_Num:
  "list_all fin vs \<Longrightarrow> foldl d3_max_step (Num m) vs = Num (fold max (nums vs) m)"
proof (induction vs arbitrary: m)
  case Nil show ?case by simp
next
  case (Cons v vs)
  then show ?case by (cases v) (simp_all add: d3_max_step_simps)
qed

lemma fold_max_Max: "fold max xs (x::real) = Max (insert x (set xs))"
  using Max.set_eq_fold [of x xs] by simp

lemma d3_max_eq:
  "list_all fin vs \<Longrightarrow>
   d3_max vs = (if nums vs = [] then Undefined else Num (Max (set (nums vs))))"
  unfolding d3_max_def
proof (induction vs)
  case Nil show ?case by simp
next
  case (Cons v vs)
  then show ?case
    by (cases v) (simp_all add: d3_max_step_simps d3_max_foldl_Num fold_max_Max)
qed

section \<open>Facts about the year filter\<close>

lemma years_list_Cons:
  "years_list (d # data) = (case year_of d of None \<Rightarrow> [] | Some y \<Rightarrow> [y]) @ years_list data"
  by (simp add: years_list_def List.map_filter_simps split: option.splits)

lemma row_year_of:
  "row_year d = (case year_of d of None \<Rightarrow> NaN | Some y \<Rightarrow> Num (of_int y))"
  by (cases "date d") (simp_all add: row_year_def year_of_def)

lemma years_list_Nil: "years_list [] = []"
  by (simp add: years_list_def List.map_filter_simps)

lemma nums_row_year: "nums (map row_year data) = map of_int (years_list data)"
proof (induction data)
  case Nil show ?case by (simp add: years_list_Nil)
next
  case (Cons d data)
  then show ?case
    by (cases "year_of d") (simp_all add: row_year_of years_list_Cons)
qed

lemma fin_row_year: "list_all fin (map row_year data)"
  by (induction data) (simp_all add: row_year_of split: option.splits)

lemma year_in_years_list:
  "d \<in> set data \<Longrightarrow> year_of d = Some y \<Longrightarrow> y \<in> set (years_list data)"
  by (induction data) (auto simp: years_list_Cons)

lemma years_list_rowE:
  "y \<in> set (years_list data) \<Longrightarrow> \<exists>d \<in> set data. year_of d = Some y"
  by (induction data) (auto simp: years_list_Cons years_list_Nil split: option.splits)

lemma maxYear_eq:
  assumes "years_list data \<noteq> []"
  shows "d3_max (map row_year data) = Num (of_int (Max (set (years_list data))))"
proof -
  have "Max (of_int ` set (years_list data)) = (of_int (Max (set (years_list data))) :: real)"
    using assms by (intro mono_Max_commute [symmetric]) (auto simp: mono_def)
  with assms show ?thesis by (simp add: d3_max_eq [OF fin_row_year] nums_row_year)
qed

lemma filterLastYears_window:
  "filterLastYears data n =
     filter (\<lambda>d. case year_of d of None \<Rightarrow> False
                  | Some y \<Rightarrow> Max (set (years_list data)) - n < y) data"
  unfolding filterLastYears_def Let_def
proof (rule filter_cong [OF refl])
  fix d assume d: "d \<in> set data"
  show "js_gt (row_year d) (js_sub (d3_max (map row_year data)) (Num (of_int n))) =
        (case year_of d of None \<Rightarrow> False | Some y \<Rightarrow> Max (set (years_list data)) - n < y)"
  proof (cases "year_of d")
    case None
    then show ?thesis by (simp add: row_year_of js_gt_def)
  next
    case (Some y)
    with d have "y \<in> set (years_list data)" by (simp add: year_in_years_list)
    then have "years_list data \<noteq> []" by auto
    then have mx: "d3_max (map row_year data) = Num (of_int (Max (set (years_list data))))"
      by (rule maxYear_eq)
    have "(real_of_int (Max (set (years_list data))) - real_of_int n < real_of_int y)
        = (Max (set (years_list data)) - n < y)"
      by linarith
    with Some mx show ?thesis by (simp add: row_year_of js_gt_def)
  qed
qed

section \<open>The year filter on the sample data\<close>

lemma fl_gap:
  "filterLastYears ex_gap 2 = [\<lparr>date = LocalDate 2010 0 1, maxT = Num 21, minT = Num 11\<rparr>]"
  by (simp add: ex_gap_def filterLastYears_def d3_max_def d3_max_step_simps row_year_def
      js_gt_def)

lemma top_gap: "top_years ex_gap 2 = {2005, 2010}"
  by (simp add: ex_gap_def top_years_def years_list_Cons years_list_Nil year_of_def
      numeral_2_eq_2 insert_commute)

lemma contig: "years_contiguous ex_contig"
  by (simp add: years_contiguous_def ex_contig_def years_list_Cons years_list_Nil year_of_def
      upto.simps)

lemma years_list_contig: "years_list ex_contig = [2009, 2010]"
  by (simp add: ex_contig_def years_list_Cons years_list_Nil year_of_def)

lemma fl_contig:
  "filterLastYears ex_contig 1 = [\<lparr>date = LocalDate 2010 0 1, maxT = Num 21, minT = Num 11\<rparr>]"
  by (simp add: ex_contig_def filterLastYears_def d3_max_def d3_max_step_simps row_year_def
      js_gt_def)

section \<open>Year filter: the window below the greatest year\<close>

text \<open>
  Claim C3. \<open>filterLastYears data n\<close> is exactly the subsequence of the rows whose year
  is greater than \<open>maxYear - n\<close>, where \<open>maxYear\<close> is the greatest year that occurs among
  the rows. A row with an invalid date has the year \<open>NaN\<close>, which is greater than nothing:
  it is never retained.
\<close>

theorem filterLastYears_subsequence:
  "filterLastYears data n =
     filter (\<lambda>d. case year_of d of None \<Rightarrow> False
                  | Some y \<Rightarrow> y > Max (set (years_list data)) - n) data"
  by (simp add: filterLastYears_window)

theorem filterLastYears_subsequence_witness:
  "filterLastYears ex_contig 1 =
     filter (\<lambda>d. case year_of d of None \<Rightarrow> False
                  | Some y \<Rightarrow> y > Max (set (years_list ex_contig)) - 1) ex_contig
   \<and> filterLastYears ex_contig 1
       = [\<lparr>date = LocalDate 2010 0 1, maxT = Num 21, minT = Num 11\<rparr>]"
  using filterLastYears_subsequence [of ex_contig 1] fl_contig by (intro conjI)

section \<open>Year filter: the N greatest distinct years\<close>

text \<open>
  Claim C2 as stated fails: with rows of 2005 and 2010 only and \<open>n = 2\<close>, the two greatest
  distinct years present are 2005 and 2010, but the filter keeps the years above
  \<open>2010 - 2\<close>, which is the row of 2010 alone.
\<close>

theorem filterLastYears_top_years_counterexample:
  "filterLastYears ex_gap 2 \<noteq>
     filter (\<lambda>d. case year_of d of None \<Rightarrow> False | Some y \<Rightarrow> y \<in> top_years ex_gap 2) ex_gap"
  unfolding fl_gap top_gap by (simp add: ex_gap_def year_of_def)

lemma take_rev_upto:
  "set (take k (rev [lo..hi])) = {y. lo \<le> y \<and> y \<le> hi \<and> hi - int k < y}"
proof (induction k arbitrary: hi)
  case 0
  have "{y. lo \<le> y \<and> y \<le> hi \<and> hi - int 0 < y} = {}" by (simp add: set_eq_iff)
  then show ?case by simp
next
  case (Suc k)
  show ?case
  proof (cases "lo \<le> hi")
    case True
    then have "[lo..hi] = [lo..hi - 1] @ [hi]" by (simp add: upto_rec2)
    then have "set (take (Suc k) (rev [lo..hi])) = insert hi (set (take k (rev [lo..hi - 1])))"
      by simp
    also have "\<dots> = insert hi {y. lo \<le> y \<and> y \<le> hi - 1 \<and> hi - 1 - int k < y}"
      by (simp only: Suc.IH)
    also have "\<dots> = {y. lo \<le> y \<and> y \<le> hi \<and> hi - int (Suc k) < y}"
    proof -
      have "\<And>y. (y = hi \<or> (lo \<le> y \<and> y \<le> hi - 1 \<and> hi - 1 - int k < y))
                 = (lo \<le> y \<and> y \<le> hi \<and> hi - int (Suc k) < y)"
        using True by (simp; linarith)
      then show ?thesis by (simp add: set_eq_iff)
    qed
    finally show ?thesis .
  next
    case False
    then have "[lo..hi] = []" by simp
    moreover have "{y. lo \<le> y \<and> y \<le> hi \<and> hi - int (Suc k) < y} = {}"
      using False by (simp add: set_eq_iff; linarith)
    ultimately show ?thesis by simp
  qed
qed

lemma upto_covers_sorted:
  assumes sub: "\<forall>y \<in> set [lo..hi]. y \<in> set ys"
    and bnd: "\<forall>y \<in> set ys. lo \<le> y \<and> y \<le> hi"
  shows "sort (remdups ys) = [lo..hi]"
proof -
  from sub have "{lo..hi} \<subseteq> set ys" by auto
  moreover from bnd have "set ys \<subseteq> {lo..hi}" by auto
  ultimately have "set ys = set [lo..hi]" by auto
  then have "set (sort (remdups ys)) = set [lo..hi]" by (simp only: set_sort set_remdups)
  moreover have "sorted (sort (remdups ys))" "distinct (sort (remdups ys))" by simp_all
  moreover have "sorted [lo..hi]" "distinct [lo..hi]" by (simp_all add: sorted_upto)
  ultimately show ?thesis by (metis sorted_distinct_set_unique)
qed

lemma contiguous_sorted:
  assumes "ys \<noteq> []" "list_all (\<lambda>y. y \<in> set ys) [Min (set ys) .. Max (set ys)]"
  shows "sort (remdups ys) = [Min (set ys) .. Max (set ys)]"
proof (rule upto_covers_sorted)
  show "\<forall>y \<in> set [Min (set ys)..Max (set ys)]. y \<in> set ys"
    using assms(2) unfolding list_all_iff .
  show "\<forall>y \<in> set ys. Min (set ys) \<le> y \<and> y \<le> Max (set ys)" by simp
qed

lemma top_years_contiguous:
  assumes "years_contiguous data" "y \<in> set (years_list data)"
  shows "y \<in> top_years data n \<longleftrightarrow> Max (set (years_list data)) - n < y"
proof -
  let ?ys = "years_list data"
  from assms have ne: "?ys \<noteq> []" by auto
  with assms have "sort (remdups ?ys) = [Min (set ?ys) .. Max (set ?ys)]"
    by (intro contiguous_sorted) (simp_all add: years_contiguous_def Let_def)
  then have "top_years data n = {y. Min (set ?ys) \<le> y \<and> y \<le> Max (set ?ys) \<and> Max (set ?ys) - int (nat n) < y}"
    by (simp add: top_years_def take_rev_upto)
  moreover have "Min (set ?ys) \<le> y" "y \<le> Max (set ?ys)" using assms(2) by simp_all
  ultimately show ?thesis by auto
qed

text \<open>
  Claim C2, as amended. When the calendar years present in the data have no gap, the rows
  that \<open>filterLastYears data n\<close> retains are exactly the rows whose year is among the \<open>n\<close>
  greatest distinct years present in the data. (Rows with an invalid date are never
  retained.)
\<close>

theorem filterLastYears_top_years_contiguous:
  assumes "years_contiguous data"
  shows "filterLastYears data n =
     filter (\<lambda>d. case year_of d of None \<Rightarrow> False | Some y \<Rightarrow> y \<in> top_years data n) data"
  unfolding filterLastYears_window
proof (rule filter_cong [OF refl])
  fix d assume d: "d \<in> set data"
  show "(case year_of d of None \<Rightarrow> False | Some y \<Rightarrow> Max (set (years_list data)) - n < y)
      = (case year_of d of None \<Rightarrow> False | Some y \<Rightarrow> y \<in> top_years data n)"
  proof (cases "year_of d")
    case None then show ?thesis by simp
  next
    case (Some y)
    with d have "y \<in> set (years_list data)" by (rule year_in_years_list)
    with Some show ?thesis by (simp add: top_years_contiguous [OF assms])
  qed
qed


theorem filterLastYears_top_years_contiguous_witness:
  "years_contiguous ex_contig \<and>
   filterLastYears ex_contig 1 =
     filter (\<lambda>d. case year_of d of None \<Rightarrow> False | Some y \<Rightarrow> y \<in> top_years ex_contig 1)
       ex_contig"
  using contig filterLastYears_top_years_contiguous [OF contig, of 1] by (intro conjI)

section \<open>Year filter: the result is not empty\<close>

text \<open>
  Claim C10 as stated fails on a non-empty input in which no date is valid: \<open>d3.max\<close> then
  returns \<open>undefined\<close>, \<open>undefined - n\<close> is \<open>NaN\<close>, no comparison holds and nothing is
  retained.
\<close>

theorem filterLastYears_invalid_dates_counterexample:
  "ex_invalid \<noteq> [] \<and> (1::int) \<le> 10 \<and> filterLastYears ex_invalid 10 = []"
  by (simp add: ex_invalid_def filterLastYears_def d3_max_def d3_max_step_simps row_year_def
      js_gt_def)

text \<open>
  Claim C10, as amended. When at least one row has a valid date and \<open>n \<ge> 1\<close>, the result
  of \<open>filterLastYears data n\<close> is not empty, it is a subsequence of the input (the retained
  rows keep their relative order), and every row bearing the greatest year is retained.
  \<open>Array.prototype.filter\<close> builds a new array, and the model is a function from the
  input list to a new list: the input is not changed.
\<close>

theorem filterLastYears_nonempty:
  assumes ne: "years_list data \<noteq> []" and n: "1 \<le> n"
  shows "filterLastYears data n \<noteq> []
       \<and> subseq (filterLastYears data n) data
       \<and> (\<forall>d \<in> set data. year_of d = Some (Max (set (years_list data)))
             \<longrightarrow> d \<in> set (filterLastYears data n))"
proof -
  let ?m = "Max (set (years_list data))"
  have keep: "d \<in> set (filterLastYears data n)"
    if "d \<in> set data" "year_of d = Some ?m" for d
    using that n unfolding filterLastYears_window by simp
  from ne have "?m \<in> set (years_list data)" by (intro Max_in) simp_all
  then obtain d where d: "d \<in> set data" "year_of d = Some ?m"
    using years_list_rowE by blast
  then have "d \<in> set (filterLastYears data n)" by (rule keep)
  then have "filterLastYears data n \<noteq> []" by auto
  moreover have "subseq (filterLastYears data n) data"
    unfolding filterLastYears_window by (rule subseq_filter_left)
  ultimately show ?thesis using keep by blast
qed


theorem filterLastYears_nonempty_witness:
  "years_list ex_contig \<noteq> [] \<and> (1::int) \<le> 1
   \<and> filterLastYears ex_contig 1 \<noteq> []
   \<and> subseq (filterLastYears ex_contig 1) ex_contig
   \<and> \<lparr>date = LocalDate 2010 0 1, maxT = Num 21, minT = Num 11\<rparr>
       \<in> set (filterLastYears ex_contig 1)"
proof -
  have h: "years_list ex_contig \<noteq> []" by (simp add: years_list_contig)
  have n: "(1::int) \<le> 1" by simp
  have "\<lparr>date = LocalDate 2010 0 1, maxT = Num 21, minT = Num 11\<rparr> \<in> set ex_contig"
    by (simp add: ex_contig_def)
  moreover have "year_of \<lparr>date = LocalDate 2010 0 1, maxT = Num 21, minT = Num 11\<rparr>
      = Some (Max (set (years_list ex_contig)))"
    by (simp add: years_list_contig year_of_def)
  ultimately show ?thesis using h n filterLastYears_nonempty [OF h n] by (intro conjI) blast+
qed

section \<open>Facts about grouping and averaging\<close>

lemma map_of_group_add:
  "map_of (group_add k v gs) =
     (map_of gs)(k \<mapsto> (case map_of gs k of None \<Rightarrow> [v] | Some vs \<Rightarrow> vs @ [v]))"
  by (induction gs) (auto simp: fun_eq_iff)

lemma keys_group_add: "fst ` set (group_add k v gs) = insert k (fst ` set gs)"
proof (induction gs)
  case Nil show ?case by simp
next
  case (Cons g gs)
  obtain k' vs where g: "g = (k', vs)" by (cases g)
  show ?case
  proof (cases "k' = k")
    case True
    with g show ?thesis by simp
  next
    case False
    with g Cons show ?thesis by (simp add: insert_commute)
  qed
qed

lemma distinct_group_add:
  "distinct (map fst gs) \<Longrightarrow> distinct (map fst (group_add k v gs))"
proof (induction gs)
  case Nil show ?case by simp
next
  case (Cons g gs)
  obtain k' vs where g: "g = (k', vs)" by (cases g)
  have "k' \<notin> fst ` set (group_add k v gs)" if "k' \<noteq> k"
    using that Cons.prems g by (simp add: keys_group_add)
  with Cons g show ?case by auto
qed

lemma regroup_snoc:
  "regroup f (xs @ [x]) = group_add (f x) x (regroup f xs)"
  by (simp add: regroup_def)

lemma regroup_distinct: "distinct (map fst (regroup f xs))"
proof (induction xs rule: rev_induct)
  case Nil show ?case by (simp add: regroup_def)
next
  case (snoc x xs)
  then show ?case by (simp add: regroup_snoc distinct_group_add)
qed

lemma regroup_map_of:
  "map_of (regroup f xs) k =
     (if filter (\<lambda>x. f x = k) xs = [] then None else Some (filter (\<lambda>x. f x = k) xs))"
proof (induction xs rule: rev_induct)
  case Nil show ?case by (simp add: regroup_def)
next
  case (snoc x xs)
  show ?case
  proof (cases "f x = k")
    case True
    with snoc [of ] show ?thesis
      by (simp add: regroup_snoc map_of_group_add)
  next
    case False
    with snoc show ?thesis by (simp add: regroup_snoc map_of_group_add)
  qed
qed

lemma regroup_mem:
  "(k, vs) \<in> set (regroup f xs) \<longleftrightarrow> vs = filter (\<lambda>x. f x = k) xs \<and> vs \<noteq> []"
proof -
  have "(k, vs) \<in> set (regroup f xs) \<longleftrightarrow> map_of (regroup f xs) k = Some vs"
    using regroup_distinct [of f xs] by simp
  then show ?thesis by (auto simp: regroup_map_of)
qed

lemma regroup_keys: "fst ` set (regroup f xs) = f ` set xs"
proof (induction xs rule: rev_induct)
  case Nil show ?case by (simp add: regroup_def)
next
  case (snoc x xs)
  then show ?case by (simp add: regroup_snoc keys_group_add)
qed

lemma d3_mean_step_simps:
  "\<not> is_num v \<Longrightarrow> d3_mean_step acc v = acc"
  "is_num v \<Longrightarrow> d3_mean_step (c, s) v = (Suc c, js_add s v)"
  by (cases v; simp add: d3_mean_step_def)+

lemma d3_mean_foldl:
  "foldl d3_mean_step (c, s) vs =
     (c + length (filter is_num vs), foldl js_add s (filter is_num vs))"
proof (induction vs arbitrary: c s)
  case Nil show ?case by simp
next
  case (Cons v vs)
  then show ?case by (cases "is_num v") (simp_all add: d3_mean_step_simps)
qed

lemma d3_mean_arithmetic_mean:
  "d3_mean vs =
     (if filter is_num vs = [] then Undefined else arithmetic_mean (filter is_num vs))"
  by (simp add: d3_mean_def d3_mean_foldl arithmetic_mean_def)

lemma aggregate_unfold:
  "aggregateByYearMonth data =
     concat (map (\<lambda>g. map (\<lambda>e.
         \<lparr>year = fst g, month = fst e, avgMax = d3_mean (map maxT (snd e)),
          avgMin = d3_mean (map minT (snd e)), days = snd e\<rparr>)
       (regroup row_month (snd g))) (regroup row_year data))"
  unfolding aggregateByYearMonth_def d3_group_def Let_def
  by (simp add: case_prod_unfold comp_def)

lemma aggregate_mem:
  "c \<in> set (aggregateByYearMonth data) \<longleftrightarrow>
     (\<exists>y ys m ds. (y, ys) \<in> set (regroup row_year data) \<and>
        (m, ds) \<in> set (regroup row_month ys) \<and>
        c = \<lparr>year = y, month = m, avgMax = d3_mean (map maxT ds),
             avgMin = d3_mean (map minT ds), days = ds\<rparr>)"
  (is "?L \<longleftrightarrow> ?R")
proof
  assume ?L
  then obtain g e where "g \<in> set (regroup row_year data)"
    "e \<in> set (regroup row_month (snd g))"
    "c = \<lparr>year = fst g, month = fst e, avgMax = d3_mean (map maxT (snd e)),
          avgMin = d3_mean (map minT (snd e)), days = snd e\<rparr>"
    unfolding aggregate_unfold by auto
  then show ?R by (intro exI [of _ "fst g"] exI [of _ "snd g"] exI [of _ "fst e"] exI [of _ "snd e"]) simp
next
  assume ?R
  then obtain y ys m ds where
    "(y, ys) \<in> set (regroup row_year data)" "(m, ds) \<in> set (regroup row_month ys)"
    "c = \<lparr>year = y, month = m, avgMax = d3_mean (map maxT ds),
          avgMin = d3_mean (map minT ds), days = ds\<rparr>" by blast
  then show ?L unfolding aggregate_unfold by force
qed

lemma aggregate_cell:
  assumes "c \<in> set (aggregateByYearMonth data)"
  shows "days c = filter (\<lambda>d. row_ym d = cell_ym c) data"
    and "days c \<noteq> []"
    and "avgMax c = d3_mean (map maxT (days c))"
    and "avgMin c = d3_mean (map minT (days c))"
proof -
  from assms obtain y ys m ds where
    ys: "(y, ys) \<in> set (regroup row_year data)" and
    ds: "(m, ds) \<in> set (regroup row_month ys)" and
    c: "c = \<lparr>year = y, month = m, avgMax = d3_mean (map maxT ds),
             avgMin = d3_mean (map minT ds), days = ds\<rparr>"
    unfolding aggregate_mem by blast
  from ys have ys_eq: "ys = filter (\<lambda>d. row_year d = y) data"
    unfolding regroup_mem by blast
  from ds have ds_eq: "ds = filter (\<lambda>d. row_month d = m) ys" and ne: "ds \<noteq> []"
    unfolding regroup_mem by blast+
  have "ds = filter (\<lambda>d. row_ym d = (y, m)) data"
    unfolding ds_eq ys_eq by (simp add: row_ym_def conj_commute)
  with c show "days c = filter (\<lambda>d. row_ym d = cell_ym c) data"
    by (simp add: cell_ym_def)
  from c ne show "days c \<noteq> []" by simp
  from c show "avgMax c = d3_mean (map maxT (days c))" by simp
  from c show "avgMin c = d3_mean (map minT (days c))" by simp
qed

lemma distinct_pairs:
  assumes "distinct (map fst gs)"
    and "\<And>g. g \<in> set gs \<Longrightarrow> distinct (map fst (h (snd g)))"
  shows "distinct (concat (map (\<lambda>g. map (\<lambda>e. (fst g, fst e)) (h (snd g))) gs))"
  using assms
proof (induction gs)
  case Nil show ?case by simp
next
  case (Cons g gs)
  have "distinct (map fst (h (snd g)))" using Cons.prems(2) [of g] by simp
  then have inj: "distinct (map (\<lambda>e. (fst g, fst e)) (h (snd g)))"
    by (simp add: distinct_map inj_on_def)
  have rest: "distinct (concat (map (\<lambda>g. map (\<lambda>e. (fst g, fst e)) (h (snd g))) gs))"
    using Cons.prems by (intro Cons.IH) auto
  have "fst g \<notin> fst ` set gs" using Cons.prems(1) by simp
  then have disj: "set (map (\<lambda>e. (fst g, fst e)) (h (snd g)))
      \<inter> set (concat (map (\<lambda>g. map (\<lambda>e. (fst g, fst e)) (h (snd g))) gs)) = {}"
    by (auto simp: image_iff)
  show ?case using inj rest disj by simp
qed

lemma aggregate_ym_list:
  "map cell_ym (aggregateByYearMonth data) =
     concat (map (\<lambda>g. map (\<lambda>e. (fst g, fst e)) (regroup row_month (snd g)))
       (regroup row_year data))"
  unfolding aggregate_unfold
  by (simp add: map_concat comp_def cell_ym_def)

lemma aggregate_distinct: "distinct (map cell_ym (aggregateByYearMonth data))"
  unfolding aggregate_ym_list
  by (rule distinct_pairs) (simp_all add: regroup_distinct)

lemma aggregate_pairs: "cell_ym ` set (aggregateByYearMonth data) = row_ym ` set data"
proof (intro equalityI subsetI)
  fix p assume "p \<in> cell_ym ` set (aggregateByYearMonth data)"
  then obtain c where c: "c \<in> set (aggregateByYearMonth data)" and p: "p = cell_ym c" by blast
  from aggregate_cell(1,2) [OF c] have "filter (\<lambda>d. row_ym d = cell_ym c) data \<noteq> []" by simp
  then obtain d where "d \<in> set data" "row_ym d = cell_ym c"
    unfolding filter_empty_conv by blast
  with p show "p \<in> row_ym ` set data" by force
next
  fix p assume "p \<in> row_ym ` set data"
  then obtain d where d: "d \<in> set data" and p: "p = row_ym d" by blast
  define ys where "ys = filter (\<lambda>x. row_year x = row_year d) data"
  define ds where "ds = filter (\<lambda>x. row_month x = row_month d) ys"
  from d have dys: "d \<in> set ys" by (simp add: ys_def)
  then have "d \<in> set ds" by (simp add: ds_def)
  then have "ds \<noteq> []" by auto
  moreover from dys have "ys \<noteq> []" by auto
  ultimately have "(row_year d, ys) \<in> set (regroup row_year data)"
    "(row_month d, ds) \<in> set (regroup row_month ys)"
    unfolding regroup_mem ys_def ds_def by simp_all
  then have "\<lparr>year = row_year d, month = row_month d, avgMax = d3_mean (map maxT ds),
             avgMin = d3_mean (map minT ds), days = ds\<rparr> \<in> set (aggregateByYearMonth data)"
    unfolding aggregate_mem by blast
  then show "p \<in> cell_ym ` set (aggregateByYearMonth data)"
    unfolding p row_ym_def by (force simp: cell_ym_def)
qed

section \<open>The aggregator on the sample data\<close>

lemma d3_mean_numbers: "d3_mean vs = mean_of_numbers vs"
  by (simp add: mean_of_numbers_def d3_mean_arithmetic_mean)

lemma mean_of_numbers_all_num:
  "vs \<noteq> [] \<Longrightarrow> list_all is_num vs \<Longrightarrow> mean_of_numbers vs = arithmetic_mean vs"
  by (simp add: mean_of_numbers_def list_all_iff filter_id_conv)

lemma aggregate_ex_nan:
  "aggregateByYearMonth ex_nan =
     [\<lparr>year = Num 2020, month = Num 0, avgMax = Num 30, avgMin = Num 15, days = ex_nan\<rparr>]"
  by (simp add: aggregateByYearMonth_def d3_group_def regroup_def ex_nan_def row_year_def
      row_month_def d3_mean_arithmetic_mean arithmetic_mean_def)

lemma filter_ex_nan: "filterLastYears ex_nan 10 = ex_nan"
  by (simp add: ex_nan_def filterLastYears_def d3_max_def d3_max_step_simps row_year_def
      js_gt_def)

lemma mean_ex_nan: "arithmetic_mean (map maxT ex_nan) = NaN"
  by (simp add: arithmetic_mean_def ex_nan_def)

lemma ym_ex_nan: "filter (\<lambda>d. row_ym d = (Num 2020, Num 0)) ex_nan = ex_nan"
  by (simp add: ex_nan_def row_ym_def row_year_def row_month_def)

section \<open>Aggregator: one cell per populated (year, month), with its averages\<close>

text \<open>
  Claim C1 as stated fails when a retained row has a \<open>NaN\<close> temperature: the arithmetic
  mean over exactly the rows of January 2020 of the sample is \<open>NaN\<close>, but the cell's
  \<open>avgMax\<close> is 30, the mean of the one number among them.
\<close>

theorem aggregate_mean_counterexample:
  "filterLastYears ex_nan 10 = ex_nan \<and>
   \<not> (\<forall>c \<in> set (aggregateByYearMonth ex_nan).
         avgMax c = arithmetic_mean (map maxT (filter (\<lambda>d. row_ym d = cell_ym c) ex_nan)))"
  by (simp add: filter_ex_nan aggregate_ex_nan cell_ym_def ym_ex_nan mean_ex_nan)

text \<open>
  Claim C1, as amended. For every input sequence, every cell produced by the aggregator
  holds in \<open>days\<close> exactly the input rows of its (year, month), in input order; its
  \<open>avgMax\<close> is the arithmetic mean of the \<open>max\<close> values of those rows that are numbers
  (\<open>undefined\<close> when none is), and its \<open>avgMin\<close> likewise for \<open>min\<close>, which is the
  arithmetic mean over exactly those rows whenever all their values are numbers; the cells' pairs are
  pairwise distinct, and they are exactly the pairs that occur among the rows: one cell
  per populated pair, none for a pair without rows.
\<close>

theorem aggregate_cells_mean_of_numbers:
  "(\<forall>c \<in> set (aggregateByYearMonth data).
      days c = filter (\<lambda>d. row_ym d = cell_ym c) data \<and>
      avgMax c = mean_of_numbers (map maxT (filter (\<lambda>d. row_ym d = cell_ym c) data)) \<and>
      avgMin c = mean_of_numbers (map minT (filter (\<lambda>d. row_ym d = cell_ym c) data)) \<and>
      (list_all is_num (map maxT (filter (\<lambda>d. row_ym d = cell_ym c) data)) \<longrightarrow>
         avgMax c = arithmetic_mean (map maxT (filter (\<lambda>d. row_ym d = cell_ym c) data))) \<and>
      (list_all is_num (map minT (filter (\<lambda>d. row_ym d = cell_ym c) data)) \<longrightarrow>
         avgMin c = arithmetic_mean (map minT (filter (\<lambda>d. row_ym d = cell_ym c) data))))
   \<and> distinct (map cell_ym (aggregateByYearMonth data))
   \<and> cell_ym ` set (aggregateByYearMonth data) = row_ym ` set data"
proof (intro conjI ballI)
  fix c assume c: "c \<in> set (aggregateByYearMonth data)"
  show d: "days c = filter (\<lambda>d. row_ym d = cell_ym c) data" by (rule aggregate_cell(1) [OF c])
  show mx: "avgMax c = mean_of_numbers (map maxT (filter (\<lambda>d. row_ym d = cell_ym c) data))"
    using aggregate_cell(3) [OF c] unfolding d d3_mean_numbers .
  show mn: "avgMin c = mean_of_numbers (map minT (filter (\<lambda>d. row_ym d = cell_ym c) data))"
    using aggregate_cell(4) [OF c] unfolding d d3_mean_numbers .
  have ne: "filter (\<lambda>d. row_ym d = cell_ym c) data \<noteq> []"
    using aggregate_cell(2) [OF c] unfolding d .
  show "list_all is_num (map maxT (filter (\<lambda>d. row_ym d = cell_ym c) data)) \<longrightarrow>
         avgMax c = arithmetic_mean (map maxT (filter (\<lambda>d. row_ym d = cell_ym c) data))"
    unfolding mx using ne by (simp add: mean_of_numbers_all_num)
  show "list_all is_num (map minT (filter (\<lambda>d. row_ym d = cell_ym c) data)) \<longrightarrow>
         avgMin c = arithmetic_mean (map minT (filter (\<lambda>d. row_ym d = cell_ym c) data))"
    unfolding mn using ne by (simp add: mean_of_numbers_all_num)
next
  show "distinct (map cell_ym (aggregateByYearMonth data))" by (rule aggregate_distinct)
  show "cell_ym ` set (aggregateByYearMonth data) = row_ym ` set data" by (rule aggregate_pairs)
qed

theorem aggregate_cells_mean_of_numbers_witness:
  "\<lparr>year = Num 2020, month = Num 0, avgMax = Num 30, avgMin = Num 15, days = ex_nan\<rparr>
     \<in> set (aggregateByYearMonth ex_nan)
   \<and> mean_of_numbers (map maxT (filter (\<lambda>d. row_ym d = (Num 2020, Num 0)) ex_nan)) = Num 30
   \<and> mean_of_numbers (map minT (filter (\<lambda>d. row_ym d = (Num 2020, Num 0)) ex_nan)) = Num 15
   \<and> distinct (map cell_ym (aggregateByYearMonth ex_nan))
   \<and> cell_ym ` set (aggregateByYearMonth ex_nan) = row_ym ` set ex_nan"
proof -
  let ?c = "\<lparr>year = Num 2020, month = Num 0, avgMax = Num 30, avgMin = Num 15, days = ex_nan\<rparr>"
  have mem: "?c \<in> set (aggregateByYearMonth ex_nan)" by (simp add: aggregate_ex_nan)
  have ym: "cell_ym ?c = (Num 2020, Num 0)" by (simp add: cell_ym_def)
  from aggregate_cells_mean_of_numbers [of ex_nan] mem
  have "avgMax ?c = mean_of_numbers (map maxT (filter (\<lambda>d. row_ym d = cell_ym ?c) ex_nan))"
    and "avgMin ?c = mean_of_numbers (map minT (filter (\<lambda>d. row_ym d = cell_ym ?c) ex_nan))"
    and "distinct (map cell_ym (aggregateByYearMonth ex_nan))"
    and "cell_ym ` set (aggregateByYearMonth ex_nan) = row_ym ` set ex_nan"
    by blast+
  with mem show ?thesis unfolding ym by simp
qed

section \<open>Roundings met by the color scale\<close>

text \<open>
  The roundings that occur when the color scale is evaluated at the sample temperatures
  0, 10, 12, 20, 21, 30, 40, 1/256 and \<open>2^-70\<close>. Each line names the exponent of the spacing
  and the significand of the rounded value.
\<close>

lemma dbl_color_1: "dbl (- (1 / 40)) = - (3602879701896397 / 144115188075855872)"
  by (rule dbl_cert [where k = "- 58" and m = "- 7205759403792794" and u = "1 / 2 ^ 58"]) (simp_all add: pow2_def)

lemma dbl_color_2: "dbl (18014398509481985 / 18014398509481984) = 1"
  by (rule dbl_cert [where k = "- 52" and m = 4503599627370496 and u = "1 / 2 ^ 52"]) (simp_all add: pow2_def)

lemma dbl_color_3: "dbl (9 / 10) = 8106479329266893 / 9007199254740992"
  by (rule dbl_cert [where k = "- 53" and m = 8106479329266893 and u = "1 / 2 ^ 53"]) (simp_all add: pow2_def)

lemma dbl_color_4: "dbl (900719925474099 / 9007199254740992) = 900719925474099 / 9007199254740992"
  by (rule dbl_cert [where k = "- 56" and m = 7205759403792792 and u = "1 / 2 ^ 56"]) (simp_all add: pow2_def)

lemma dbl_color_5: "dbl (4503599627370495 / 4503599627370496) = 4503599627370495 / 4503599627370496"
  by (rule dbl_cert [where k = "- 53" and m = 9007199254740990 and u = "1 / 2 ^ 53"]) (simp_all add: pow2_def)

lemma dbl_color_6: "dbl (20282409603651661416747996545025 / 20282409603651670423947251286016) = 2251799813685247 / 2251799813685248"
  by (rule dbl_cert [where k = "- 53" and m = 9007199254740988 and u = "1 / 2 ^ 53"]) (simp_all add: pow2_def)

lemma dbl_color_7: "dbl (10141204801825828456574184587265 / 10141204801825835211973625643008) = 4503599627370493 / 4503599627370496"
  by (rule dbl_cert [where k = "- 53" and m = 9007199254740986 and u = "1 / 2 ^ 53"]) (simp_all add: pow2_def)

lemma dbl_color_8: "dbl (13510798882111485 / 4503599627370496) = 3377699720527871 / 1125899906842624"
  by (rule dbl_cert_tie [where k = "- 51" and m = 6755399441055742 and u = "1 / 2 ^ 51"]) (simp_all add: pow2_def)

lemma dbl_color_9: "dbl (- (2251799813685247 / 1125899906842624)) = - (2251799813685247 / 1125899906842624)"
  by (rule dbl_cert [where k = "- 52" and m = "- 9007199254740988" and u = "1 / 2 ^ 52"]) (simp_all add: pow2_def)

lemma dbl_color_10: "dbl (6755399441055741 / 2251799813685248) = 6755399441055741 / 2251799813685248"
  by (rule dbl_cert [where k = "- 51" and m = 6755399441055741 and u = "1 / 2 ^ 51"]) (simp_all add: pow2_def)

lemma dbl_color_11: "dbl (2251799813685247 / 2251799813685248) = 2251799813685247 / 2251799813685248"
  by (rule dbl_cert [where k = "- 53" and m = 9007199254740988 and u = "1 / 2 ^ 53"]) (simp_all add: pow2_def)

lemma dbl_color_12: "dbl (1 / 4503599627370496) = 1 / 4503599627370496"
  by (rule dbl_cert [where k = "- 104" and m = 4503599627370496 and u = "1 / 2 ^ 104"]) (simp_all add: pow2_def)

lemma dbl_color_13: "dbl (6755399441055741 / 1125899906842624) = 6755399441055741 / 1125899906842624"
  by (rule dbl_cert [where k = "- 50" and m = 6755399441055741 and u = "1 / 2 ^ 50"]) (simp_all add: pow2_def)

lemma dbl_color_14: "dbl (- (2251799813685245 / 1125899906842624)) = - (2251799813685245 / 1125899906842624)"
  by (rule dbl_cert [where k = "- 52" and m = "- 9007199254740980" and u = "1 / 2 ^ 52"]) (simp_all add: pow2_def)

lemma dbl_color_15: "dbl (13510798882111479 / 4503599627370496) = 1688849860263935 / 562949953421312"
  by (rule dbl_cert_tie [where k = "- 51" and m = 6755399441055740 and u = "1 / 2 ^ 51"]) (simp_all add: pow2_def)

lemma dbl_color_16: "dbl (1125899906842625 / 1125899906842624) = 1125899906842625 / 1125899906842624"
  by (rule dbl_cert [where k = "- 52" and m = 4503599627370500 and u = "1 / 2 ^ 52"]) (simp_all add: pow2_def)

lemma dbl_color_17: "dbl (4503599627370495 / 1125899906842624) = 4503599627370495 / 1125899906842624"
  by (rule dbl_cert [where k = "- 51" and m = 9007199254740990 and u = "1 / 2 ^ 51"]) (simp_all add: pow2_def)

lemma dbl_color_18: "dbl (15762598695796731 / 2251799813685248) = 3940649673949183 / 562949953421312"
  by (rule dbl_cert_tie [where k = "- 50" and m = 7881299347898366 and u = "1 / 2 ^ 50"]) (simp_all add: pow2_def)

lemma dbl_color_19: "dbl (29 / 1125899906842624) = 29 / 1125899906842624"
  by (rule dbl_cert [where k = "- 98" and m = 8162774324609024 and u = "1 / 2 ^ 98"]) (simp_all add: pow2_def)

lemma dbl_color_20: "dbl (77687093572141125 / 1125899906842624) = 1213860837064705 / 17592186044416"
  by (rule dbl_cert [where k = "- 46" and m = 4855443348258820 and u = "1 / 2 ^ 46"]) (simp_all add: pow2_def)

lemma dbl_color_21: "dbl (77687093572141149 / 1125899906842624) = 2427721674129411 / 35184372088832"
  by (rule dbl_cert [where k = "- 46" and m = 4855443348258822 and u = "1 / 2 ^ 46"]) (simp_all add: pow2_def)

lemma dbl_color_22: "dbl (9323858603540483 / 35184372088832) = 2330964650885121 / 8796093022208"
  by (rule dbl_cert_tie [where k = "- 44" and m = 4661929301770242 and u = "1 / 2 ^ 44"]) (simp_all add: pow2_def)

lemma dbl_color_23: "dbl (130604389193744297 / 4503599627370496) = 8162774324609019 / 281474976710656"
  by (rule dbl_cert [where k = "- 48" and m = 8162774324609019 and u = "1 / 2 ^ 48"]) (simp_all add: pow2_def)

lemma dbl_color_24: "dbl (82753643152932891 / 281474976710656) = 2586051348529153 / 8796093022208"
  by (rule dbl_cert [where k = "- 44" and m = 5172102697058306 and u = "1 / 2 ^ 44"]) (simp_all add: pow2_def)

lemma dbl_color_25: "dbl (2586051348529153 / 52776558133248) = 6896136929411075 / 140737488355328"
  by (rule dbl_cert [where k = "- 47" and m = 6896136929411075 and u = "1 / 2 ^ 47"]) (simp_all add: pow2_def)

lemma dbl_color_26: "dbl (173 / 4503599627370496) = 173 / 4503599627370496"
  by (rule dbl_cert [where k = "- 97" and m = 6086896371367936 and u = "1 / 2 ^ 97"]) (simp_all add: pow2_def)

lemma dbl_color_27: "dbl (131730289100587125 / 1125899906842624) = 8233143068786695 / 70368744177664"
  by (rule dbl_cert [where k = "- 46" and m = 8233143068786695 and u = "1 / 2 ^ 46"]) (simp_all add: pow2_def)

lemma dbl_color_28: "dbl (526921156402348653 / 4503599627370496) = 4116571534393349 / 35184372088832"
  by (rule dbl_cert [where k = "- 46" and m = 8233143068786698 and u = "1 / 2 ^ 46"]) (simp_all add: pow2_def)

lemma dbl_color_29: "dbl (11716395905581061 / 35184372088832) = 2929098976395265 / 8796093022208"
  by (rule dbl_cert_tie [where k = "- 44" and m = 5858197952790530 and u = "1 / 2 ^ 44"]) (simp_all add: pow2_def)

lemma dbl_color_30: "dbl (- (40532396646334437 / 4503599627370496)) = - (5066549580791805 / 562949953421312)"
  by (rule dbl_cert [where k = "- 49" and m = "- 5066549580791805" and u = "1 / 2 ^ 49"]) (simp_all add: pow2_def)

lemma dbl_color_31: "dbl (182395784908505155 / 562949953421312) = 2849934139195393 / 8796093022208"
  by (rule dbl_cert [where k = "- 44" and m = 5699868278390786 and u = "1 / 2 ^ 44"]) (simp_all add: pow2_def)

lemma dbl_color_32: "dbl (2849934139195393 / 52776558133248) = 7599824371187715 / 140737488355328"
  by (rule dbl_cert [where k = "- 47" and m = 7599824371187715 and u = "1 / 2 ^ 47"]) (simp_all add: pow2_def)

lemma dbl_color_33: "dbl (209 / 4503599627370496) = 209 / 4503599627370496"
  by (rule dbl_cert [where k = "- 97" and m = 7353533766565888 and u = "1 / 2 ^ 97"]) (simp_all add: pow2_def)

lemma dbl_color_34: "dbl (50665495807918125 / 281474976710656) = 3166593487994883 / 17592186044416"
  by (rule dbl_cert [where k = "- 45" and m = 6333186975989766 and u = "1 / 2 ^ 45"]) (simp_all add: pow2_def)

lemma dbl_color_35: "dbl (810647932926690257 / 4503599627370496) = 791648371998721 / 4398046511104"
  by (rule dbl_cert [where k = "- 45" and m = 6333186975989768 and u = "1 / 2 ^ 45"]) (simp_all add: pow2_def)

lemma dbl_color_36: "dbl (3412884092616705 / 4398046511104) = 3412884092616705 / 4398046511104"
  by (rule dbl_cert [where k = "- 43" and m = 6825768185233410 and u = "1 / 2 ^ 43"]) (simp_all add: pow2_def)

lemma dbl_color_37: "dbl (265712378014859087 / 2251799813685248) = 4151755906482173 / 35184372088832"
  by (rule dbl_cert [where k = "- 46" and m = 8303511812964346 and u = "1 / 2 ^ 46"]) (simp_all add: pow2_def)

lemma dbl_color_38: "dbl (31454828647415813 / 35184372088832) = 7863707161853953 / 8796093022208"
  by (rule dbl_cert [where k = "- 43" and m = 7863707161853953 and u = "1 / 2 ^ 43"]) (simp_all add: pow2_def)

lemma dbl_color_39: "dbl (7863707161853953 / 52776558133248) = 5242471441235969 / 35184372088832"
  by (rule dbl_cert [where k = "- 45" and m = 5242471441235969 and u = "1 / 2 ^ 45"]) (simp_all add: pow2_def)

lemma dbl_color_40: "dbl (54043195528445955 / 72057594037927936) = 3 / 4"
  by (rule dbl_cert [where k = "- 53" and m = 6755399441055744 and u = "1 / 2 ^ 53"]) (simp_all add: pow2_def)

lemma dbl_color_41: "dbl (15 / 2) = 15 / 2"
  by (rule dbl_cert [where k = "- 50" and m = 8444249301319680 and u = "1 / 2 ^ 50"]) (simp_all add: pow2_def)

lemma dbl_color_42: "dbl (7 / 10) = 3152519739159347 / 4503599627370496"
  by (rule dbl_cert [where k = "- 53" and m = 6305039478318694 and u = "1 / 2 ^ 53"]) (simp_all add: pow2_def)

lemma dbl_color_43: "dbl (225179981368525 / 4503599627370496) = 225179981368525 / 4503599627370496"
  by (rule dbl_cert [where k = "- 57" and m = 7205759403792800 and u = "1 / 2 ^ 57"]) (simp_all add: pow2_def)

lemma dbl_color_44: "dbl (1125899906842625 / 2251799813685248) = 1125899906842625 / 2251799813685248"
  by (rule dbl_cert [where k = "- 53" and m = 4503599627370500 and u = "1 / 2 ^ 53"]) (simp_all add: pow2_def)

lemma dbl_color_45: "dbl (1267650600228231653296516890625 / 5070602400912917605986812821504) = 562949953421313 / 2251799813685248"
  by (rule dbl_cert [where k = "- 54" and m = 4503599627370504 and u = "1 / 2 ^ 54"]) (simp_all add: pow2_def)

lemma dbl_color_46: "dbl (633825300114116389598211866625 / 5070602400912917605986812821504) = 1125899906842627 / 9007199254740992"
  by (rule dbl_cert [where k = "- 55" and m = 4503599627370508 and u = "1 / 2 ^ 55"]) (simp_all add: pow2_def)

lemma dbl_color_47: "dbl (3377699720527875 / 2251799813685248) = 3377699720527875 / 2251799813685248"
  by (rule dbl_cert [where k = "- 52" and m = 6755399441055750 and u = "1 / 2 ^ 52"]) (simp_all add: pow2_def)

lemma dbl_color_48: "dbl (- (1125899906842627 / 2251799813685248)) = - (1125899906842627 / 2251799813685248)"
  by (rule dbl_cert [where k = "- 53" and m = "- 4503599627370508" and u = "1 / 2 ^ 53"]) (simp_all add: pow2_def)

lemma dbl_color_49: "dbl (1688849860263939 / 2251799813685248) = 1688849860263939 / 2251799813685248"
  by (rule dbl_cert [where k = "- 53" and m = 6755399441055756 and u = "1 / 2 ^ 53"]) (simp_all add: pow2_def)

lemma dbl_color_50: "dbl (1 / 4) = 1 / 4"
  by (rule dbl_cert [where k = "- 54" and m = 4503599627370496 and u = "1 / 2 ^ 54"]) (simp_all add: pow2_def)

lemma dbl_color_51: "dbl (1125899906842621 / 9007199254740992) = 1125899906842621 / 9007199254740992"
  by (rule dbl_cert [where k = "- 56" and m = 9007199254740968 and u = "1 / 2 ^ 56"]) (simp_all add: pow2_def)

lemma dbl_color_52: "dbl (1688849860263939 / 1125899906842624) = 1688849860263939 / 1125899906842624"
  by (rule dbl_cert [where k = "- 52" and m = 6755399441055756 and u = "1 / 2 ^ 52"]) (simp_all add: pow2_def)

lemma dbl_color_53: "dbl (2814749767106557 / 1125899906842624) = 2814749767106557 / 1125899906842624"
  by (rule dbl_cert [where k = "- 51" and m = 5629499534213114 and u = "1 / 2 ^ 51"]) (simp_all add: pow2_def)

lemma dbl_color_54: "dbl (3377699720527881 / 9007199254740992) = 3377699720527881 / 9007199254740992"
  by (rule dbl_cert [where k = "- 54" and m = 6755399441055762 and u = "1 / 2 ^ 54"]) (simp_all add: pow2_def)

lemma dbl_color_55: "dbl (25895697857380337 / 9007199254740992) = 1618481116086271 / 562949953421312"
  by (rule dbl_cert [where k = "- 51" and m = 6473924464345084 and u = "1 / 2 ^ 51"]) (simp_all add: pow2_def)

lemma dbl_color_56: "dbl (5629499534213123 / 2251799813685248) = 5629499534213123 / 2251799813685248"
  by (rule dbl_cert [where k = "- 51" and m = 5629499534213123 and u = "1 / 2 ^ 51"]) (simp_all add: pow2_def)

lemma dbl_color_57: "dbl (3659174697238531 / 1125899906842624) = 3659174697238531 / 1125899906842624"
  by (rule dbl_cert [where k = "- 51" and m = 7318349394477062 and u = "1 / 2 ^ 51"]) (simp_all add: pow2_def)

lemma dbl_color_58: "dbl (25895697857380367 / 9007199254740992) = 1618481116086273 / 562949953421312"
  by (rule dbl_cert [where k = "- 51" and m = 6473924464345092 and u = "1 / 2 ^ 51"]) (simp_all add: pow2_def)

lemma dbl_color_59: "dbl (7881299347898347 / 281474976710656) = 7881299347898347 / 281474976710656"
  by (rule dbl_cert [where k = "- 48" and m = 7881299347898347 and u = "1 / 2 ^ 48"]) (simp_all add: pow2_def)

lemma dbl_color_60: "dbl (276760270850752341 / 562949953421312) = 8648758464086011 / 17592186044416"
  by (rule dbl_cert [where k = "- 44" and m = 8648758464086011 and u = "1 / 2 ^ 44"]) (simp_all add: pow2_def)

lemma dbl_color_61: "dbl (146261434773274523 / 281474976710656) = 4570669836664829 / 8796093022208"
  by (rule dbl_cert [where k = "- 43" and m = 4570669836664829 and u = "1 / 2 ^ 43"]) (simp_all add: pow2_def)

lemma dbl_color_62: "dbl (46935952366501917 / 140737488355328) = 1466748511453185 / 4398046511104"
  by (rule dbl_cert [where k = "- 44" and m = 5866994045812740 and u = "1 / 2 ^ 44"]) (simp_all add: pow2_def)

lemma dbl_color_63: "dbl (7504166859571199 / 8796093022208) = 7504166859571199 / 8796093022208"
  by (rule dbl_cert [where k = "- 43" and m = 7504166859571199 and u = "1 / 2 ^ 43"]) (simp_all add: pow2_def)

lemma dbl_color_64: "dbl (77687093572141263 / 9007199254740992) = 4855443348258829 / 562949953421312"
  by (rule dbl_cert [where k = "- 49" and m = 4855443348258829 and u = "1 / 2 ^ 49"]) (simp_all add: pow2_def)

lemma dbl_color_65: "dbl (485122122360815565 / 562949953421312) = 7580033161887743 / 8796093022208"
  by (rule dbl_cert [where k = "- 43" and m = 7580033161887743 and u = "1 / 2 ^ 43"]) (simp_all add: pow2_def)

lemma dbl_color_66: "dbl (7580033161887743 / 52776558133248) = 5053355441258495 / 35184372088832"
  by (rule dbl_cert [where k = "- 45" and m = 5053355441258495 and u = "1 / 2 ^ 45"]) (simp_all add: pow2_def)

lemma dbl_color_67: "dbl (273593677362756903 / 9007199254740992) = 8549802417586153 / 281474976710656"
  by (rule dbl_cert [where k = "- 48" and m = 8549802417586153 and u = "1 / 2 ^ 48"]) (simp_all add: pow2_def)

lemma dbl_color_68: "dbl (351210402190720807 / 562949953421312) = 5487662534230013 / 8796093022208"
  by (rule dbl_cert [where k = "- 43" and m = 5487662534230013 and u = "1 / 2 ^ 43"]) (simp_all add: pow2_def)

lemma dbl_color_69: "dbl (184155003512946569 / 281474976710656) = 1438710964944895 / 2199023255552"
  by (rule dbl_cert [where k = "- 43" and m = 5754843859779580 and u = "1 / 2 ^ 43"]) (simp_all add: pow2_def)

lemma dbl_color_70: "dbl (279997233082925229 / 562949953421312) = 8749913533841413 / 17592186044416"
  by (rule dbl_cert [where k = "- 44" and m = 8749913533841413 and u = "1 / 2 ^ 44"]) (simp_all add: pow2_def)

lemma dbl_color_71: "dbl (20259601253400573 / 17592186044416) = 5064900313350143 / 4398046511104"
  by (rule dbl_cert [where k = "- 42" and m = 5064900313350143 and u = "1 / 2 ^ 42"]) (simp_all add: pow2_def)

lemma dbl_color_72: "dbl (131730289100587359 / 9007199254740992) = 4116571534393355 / 281474976710656"
  by (rule dbl_cert [where k = "- 49" and m = 8233143068786710 and u = "1 / 2 ^ 49"]) (simp_all add: pow2_def)

lemma dbl_color_73: "dbl (328270191588802507 / 281474976710656) = 5129221743575039 / 4398046511104"
  by (rule dbl_cert [where k = "- 42" and m = 5129221743575039 and u = "1 / 2 ^ 42"]) (simp_all add: pow2_def)

lemma dbl_color_74: "dbl (5129221743575039 / 26388279066624) = 6838962324766719 / 35184372088832"
  by (rule dbl_cert [where k = "- 45" and m = 6838962324766719 and u = "1 / 2 ^ 45"]) (simp_all add: pow2_def)

lemma dbl_color_75: "dbl (34902897112121251 / 1125899906842624) = 8725724278030313 / 281474976710656"
  by (rule dbl_cert [where k = "- 48" and m = 8725724278030313 and u = "1 / 2 ^ 48"]) (simp_all add: pow2_def)

lemma dbl_color_76: "dbl (377106100048101143 / 562949953421312) = 1473070703312895 / 2199023255552"
  by (rule dbl_cert [where k = "- 43" and m = 5892282813251580 and u = "1 / 2 ^ 43"]) (simp_all add: pow2_def)

lemma dbl_color_77: "dbl (197278774302080873 / 281474976710656) = 6164961696940027 / 8796093022208"
  by (rule dbl_cert [where k = "- 43" and m = 6164961696940027 and u = "1 / 2 ^ 43"]) (simp_all add: pow2_def)

lemma dbl_color_78: "dbl (338262553262031057 / 562949953421312) = 5285352394719235 / 8796093022208"
  by (rule dbl_cert [where k = "- 43" and m = 5285352394719235 and u = "1 / 2 ^ 43"]) (simp_all add: pow2_def)

lemma dbl_color_79: "dbl (5725157045829631 / 4398046511104) = 5725157045829631 / 4398046511104"
  by (rule dbl_cert [where k = "- 42" and m = 5725157045829631 and u = "1 / 2 ^ 42"]) (simp_all add: pow2_def)

lemma dbl_color_80: "dbl (50665495807918215 / 2251799813685248) = 6333186975989777 / 281474976710656"
  by (rule dbl_cert [where k = "- 48" and m = 6333186975989777 and u = "1 / 2 ^ 48"]) (simp_all add: pow2_def)

lemma dbl_color_81: "dbl (372743237909086161 / 281474976710656) = 5824113092329471 / 4398046511104"
  by (rule dbl_cert [where k = "- 42" and m = 5824113092329471 and u = "1 / 2 ^ 42"]) (simp_all add: pow2_def)

lemma dbl_color_82: "dbl (5824113092329471 / 26388279066624) = 7765484123105961 / 35184372088832"
  by (rule dbl_cert [where k = "- 45" and m = 7765484123105961 and u = "1 / 2 ^ 45"]) (simp_all add: pow2_def)

lemma dbl_color_83: "dbl (18014398509481985 / 36028797018963968) = 1 / 2"
  by (rule dbl_cert [where k = "- 53" and m = 4503599627370496 and u = "1 / 2 ^ 53"]) (simp_all add: pow2_def)

lemma dbl_color_84: "dbl (1 / 2) = 1 / 2"
  by (rule dbl_cert [where k = "- 53" and m = 4503599627370496 and u = "1 / 2 ^ 53"]) (simp_all add: pow2_def)

lemma dbl_color_85: "dbl (749 / 3) = 8784364898178389 / 35184372088832"
  by (rule dbl_cert [where k = "- 45" and m = 8784364898178389 and u = "1 / 2 ^ 45"]) (simp_all add: pow2_def)

lemma dbl_color_86: "dbl (1487 / 6) = 8719860216015531 / 35184372088832"
  by (rule dbl_cert [where k = "- 45" and m = 8719860216015531 and u = "1 / 2 ^ 45"]) (simp_all add: pow2_def)

lemma dbl_color_87: "dbl (578 / 3) = 6778855689114965 / 35184372088832"
  by (rule dbl_cert [where k = "- 45" and m = 6778855689114965 and u = "1 / 2 ^ 45"]) (simp_all add: pow2_def)

lemma dbl_color_88: "dbl (18014398509481985 / 72057594037927936) = 1 / 4"
  by (rule dbl_cert [where k = "- 54" and m = 4503599627370496 and u = "1 / 2 ^ 54"]) (simp_all add: pow2_def)

lemma dbl_color_89: "dbl (5 / 2) = 5 / 2"
  by (rule dbl_cert [where k = "- 51" and m = 5629499534213120 and u = "1 / 2 ^ 51"]) (simp_all add: pow2_def)

lemma dbl_color_90: "dbl (1 / 5) = 3602879701896397 / 18014398509481984"
  by (rule dbl_cert [where k = "- 55" and m = 7205759403792794 and u = "1 / 2 ^ 55"]) (simp_all add: pow2_def)

lemma dbl_color_91: "dbl (900719925474099 / 18014398509481984) = 900719925474099 / 18014398509481984"
  by (rule dbl_cert [where k = "- 57" and m = 7205759403792792 and u = "1 / 2 ^ 57"]) (simp_all add: pow2_def)

lemma dbl_color_92: "dbl (4503599627370495 / 9007199254740992) = 4503599627370495 / 9007199254740992"
  by (rule dbl_cert [where k = "- 54" and m = 9007199254740990 and u = "1 / 2 ^ 54"]) (simp_all add: pow2_def)

lemma dbl_color_93: "dbl (20282409603651661416747996545025 / 81129638414606681695789005144064) = 2251799813685247 / 9007199254740992"
  by (rule dbl_cert [where k = "- 55" and m = 9007199254740988 and u = "1 / 2 ^ 55"]) (simp_all add: pow2_def)

lemma dbl_color_94: "dbl (10141204801825828456574184587265 / 81129638414606681695789005144064) = 4503599627370493 / 36028797018963968"
  by (rule dbl_cert [where k = "- 56" and m = 9007199254740986 and u = "1 / 2 ^ 56"]) (simp_all add: pow2_def)

lemma dbl_color_95: "dbl (13510798882111485 / 9007199254740992) = 3377699720527871 / 2251799813685248"
  by (rule dbl_cert_tie [where k = "- 52" and m = 6755399441055742 and u = "1 / 2 ^ 52"]) (simp_all add: pow2_def)

lemma dbl_color_96: "dbl (- (1125899906842623 / 2251799813685248)) = - (1125899906842623 / 2251799813685248)"
  by (rule dbl_cert [where k = "- 54" and m = "- 9007199254740984" and u = "1 / 2 ^ 54"]) (simp_all add: pow2_def)

lemma dbl_color_97: "dbl (6755399441055741 / 9007199254740992) = 6755399441055741 / 9007199254740992"
  by (rule dbl_cert [where k = "- 53" and m = 6755399441055741 and u = "1 / 2 ^ 53"]) (simp_all add: pow2_def)

lemma dbl_color_98: "dbl (2251799813685249 / 9007199254740992) = 2251799813685249 / 9007199254740992"
  by (rule dbl_cert [where k = "- 54" and m = 4503599627370498 and u = "1 / 2 ^ 54"]) (simp_all add: pow2_def)

lemma dbl_color_99: "dbl (4503599627370503 / 36028797018963968) = 4503599627370503 / 36028797018963968"
  by (rule dbl_cert [where k = "- 55" and m = 4503599627370503 and u = "1 / 2 ^ 55"]) (simp_all add: pow2_def)

lemma dbl_color_100: "dbl (6755399441055741 / 4503599627370496) = 6755399441055741 / 4503599627370496"
  by (rule dbl_cert [where k = "- 52" and m = 6755399441055741 and u = "1 / 2 ^ 52"]) (simp_all add: pow2_def)

lemma dbl_color_101: "dbl (11258999068426243 / 4503599627370496) = 2814749767106561 / 1125899906842624"
  by (rule dbl_cert_tie [where k = "- 51" and m = 5629499534213122 and u = "1 / 2 ^ 51"]) (simp_all add: pow2_def)

lemma dbl_color_102: "dbl (13510798882111479 / 36028797018963968) = 1688849860263935 / 4503599627370496"
  by (rule dbl_cert_tie [where k = "- 54" and m = 6755399441055740 and u = "1 / 2 ^ 54"]) (simp_all add: pow2_def)

lemma dbl_color_103: "dbl (12947848928690179 / 4503599627370496) = 3236962232172545 / 1125899906842624"
  by (rule dbl_cert_tie [where k = "- 51" and m = 6473924464345090 and u = "1 / 2 ^ 51"]) (simp_all add: pow2_def)

lemma dbl_color_104: "dbl (5629499534213119 / 2251799813685248) = 5629499534213119 / 2251799813685248"
  by (rule dbl_cert [where k = "- 51" and m = 5629499534213119 and u = "1 / 2 ^ 51"]) (simp_all add: pow2_def)

lemma dbl_color_105: "dbl (29273397577908217 / 9007199254740992) = 3659174697238527 / 1125899906842624"
  by (rule dbl_cert [where k = "- 51" and m = 7318349394477054 and u = "1 / 2 ^ 51"]) (simp_all add: pow2_def)

lemma dbl_color_106: "dbl (12947848928690173 / 4503599627370496) = 3236962232172543 / 1125899906842624"
  by (rule dbl_cert_tie [where k = "- 51" and m = 6473924464345086 and u = "1 / 2 ^ 51"]) (simp_all add: pow2_def)

lemma dbl_color_107: "dbl (968273919884658145 / 36028797018963968) = 1891159999774723 / 70368744177664"
  by (rule dbl_cert [where k = "- 48" and m = 7564639999098892 and u = "1 / 2 ^ 48"]) (simp_all add: pow2_def)

lemma dbl_color_108: "dbl (197454696162525245 / 281474976710656) = 3085229627539457 / 4398046511104"
  by (rule dbl_cert [where k = "- 43" and m = 6170459255078914 and u = "1 / 2 ^ 43"]) (simp_all add: pow2_def)

lemma dbl_color_109: "dbl (51254834040406035 / 70368744177664) = 3203427127525377 / 4398046511104"
  by (rule dbl_cert [where k = "- 43" and m = 6406854255050754 and u = "1 / 2 ^ 43"]) (simp_all add: pow2_def)

lemma dbl_color_110: "dbl (818951444739653379 / 1125899906842624) = 3199029081014271 / 4398046511104"
  by (rule dbl_cert [where k = "- 43" and m = 6398058162028542 and u = "1 / 2 ^ 43"]) (simp_all add: pow2_def)

lemma dbl_color_111: "dbl (5823 / 4) = 5823 / 4"
  by (rule dbl_cert [where k = "- 42" and m = 6402456208539648 and u = "1 / 2 ^ 42"]) (simp_all add: pow2_def)

lemma dbl_color_112: "dbl (571957152676052611 / 18014398509481984) = 4468415255281661 / 140737488355328"
  by (rule dbl_cert [where k = "- 48" and m = 8936830510563322 and u = "1 / 2 ^ 48"]) (simp_all add: pow2_def)

lemma dbl_color_113: "dbl (209347013928550397 / 140737488355328) = 2975 / 2"
  by (rule dbl_cert [where k = "- 42" and m = 6542094185267200 and u = "1 / 2 ^ 42"]) (simp_all add: pow2_def)

lemma dbl_color_114: "dbl (2975 / 12) = 8722792247022933 / 35184372088832"
  by (rule dbl_cert [where k = "- 45" and m = 8722792247022933 and u = "1 / 2 ^ 45"]) (simp_all add: pow2_def)

lemma dbl_color_115: "dbl (13510798882111509 / 2251799813685248) = 3377699720527877 / 562949953421312"
  by (rule dbl_cert_tie [where k = "- 50" and m = 6755399441055754 and u = "1 / 2 ^ 50"]) (simp_all add: pow2_def)

lemma dbl_color_116: "dbl (352828883306807405 / 1125899906842624) = 2756475650834433 / 8796093022208"
  by (rule dbl_cert [where k = "- 44" and m = 5512951301668866 and u = "1 / 2 ^ 44"]) (simp_all add: pow2_def)

lemma dbl_color_117: "dbl (179792141373931589 / 562949953421312) = 2809252208967681 / 8796093022208"
  by (rule dbl_cert [where k = "- 44" and m = 5618504417935362 and u = "1 / 2 ^ 44"]) (simp_all add: pow2_def)

lemma dbl_color_118: "dbl (281615714199011241 / 562949953421312) = 8800491068719101 / 17592186044416"
  by (rule dbl_cert [where k = "- 44" and m = 8800491068719101 and u = "1 / 2 ^ 44"]) (simp_all add: pow2_def)

lemma dbl_color_119: "dbl (14418995486654463 / 17592186044416) = 6557 / 8"
  by (rule dbl_cert_tie [where k = "- 43" and m = 7209497743327232 and u = "1 / 2 ^ 43"]) (simp_all add: pow2_def)

lemma dbl_color_120: "dbl (31525197391593451 / 1125899906842624) = 7881299347898363 / 281474976710656"
  by (rule dbl_cert [where k = "- 48" and m = 7881299347898363 and u = "1 / 2 ^ 48"]) (simp_all add: pow2_def)

lemma dbl_color_121: "dbl (238585227134369787 / 281474976710656) = 6781 / 8"
  by (rule dbl_cert [where k = "- 43" and m = 7455788347949056 and u = "1 / 2 ^ 43"]) (simp_all add: pow2_def)

lemma dbl_color_122: "dbl (6781 / 48) = 4970525565299371 / 35184372088832"
  by (rule dbl_cert [where k = "- 45" and m = 4970525565299371 and u = "1 / 2 ^ 45"]) (simp_all add: pow2_def)

lemma dbl_color_123: "dbl (175640385467449617 / 36028797018963968) = 5488762045857801 / 1125899906842624"
  by (rule dbl_cert [where k = "- 50" and m = 5488762045857801 and u = "1 / 2 ^ 50"]) (simp_all add: pow2_def)

lemma dbl_color_124: "dbl (216876469555560515 / 1125899906842624) = 3388694836805633 / 17592186044416"
  by (rule dbl_cert [where k = "- 45" and m = 6777389673611266 and u = "1 / 2 ^ 45"]) (simp_all add: pow2_def)

lemma dbl_color_125: "dbl (222365231601418313 / 1125899906842624) = 3474456743772161 / 17592186044416"
  by (rule dbl_cert [where k = "- 45" and m = 6948913487544322 and u = "1 / 2 ^ 45"]) (simp_all add: pow2_def)

lemma dbl_color_126: "dbl (313985336520736671 / 1125899906842624) = 2453010441568255 / 8796093022208"
  by (rule dbl_cert [where k = "- 44" and m = 4906020883136510 and u = "1 / 2 ^ 44"]) (simp_all add: pow2_def)

lemma dbl_color_127: "dbl (8380477626908671 / 17592186044416) = 8380477626908671 / 17592186044416"
  by (rule dbl_cert [where k = "- 44" and m = 8380477626908671 and u = "1 / 2 ^ 44"]) (simp_all add: pow2_def)

lemma dbl_color_128: "dbl (40532396646334437 / 2251799813685248) = 5066549580791805 / 281474976710656"
  by (rule dbl_cert [where k = "- 48" and m = 5066549580791805 and u = "1 / 2 ^ 48"]) (simp_all add: pow2_def)

lemma dbl_color_129: "dbl (139154191611330541 / 281474976710656) = 8697136975708159 / 17592186044416"
  by (rule dbl_cert [where k = "- 44" and m = 8697136975708159 and u = "1 / 2 ^ 44"]) (simp_all add: pow2_def)

lemma dbl_color_130: "dbl (8697136975708159 / 105553116266496) = 5798091317138773 / 70368744177664"
  by (rule dbl_cert [where k = "- 46" and m = 5798091317138773 and u = "1 / 2 ^ 46"]) (simp_all add: pow2_def)

lemma dbl_color_131: "dbl (25220157913274779 / 36028797018963968) = 6305039478318695 / 9007199254740992"
  by (rule dbl_cert [where k = "- 53" and m = 6305039478318695 and u = "1 / 2 ^ 53"]) (simp_all add: pow2_def)

lemma dbl_color_132: "dbl (31525197391593475 / 4503599627370496) = 7881299347898369 / 1125899906842624"
  by (rule dbl_cert [where k = "- 50" and m = 7881299347898369 and u = "1 / 2 ^ 50"]) (simp_all add: pow2_def)

lemma dbl_color_133: "dbl (1 / 9007199254740992) = 1 / 9007199254740992"
  by (rule dbl_cert [where k = "- 105" and m = 4503599627370496 and u = "1 / 2 ^ 105"]) (simp_all add: pow2_def)

lemma dbl_color_134: "dbl (5 / 4503599627370496) = 5 / 4503599627370496"
  by (rule dbl_cert [where k = "- 102" and m = 5629499534213120 and u = "1 / 2 ^ 102"]) (simp_all add: pow2_def)

lemma dbl_color_135: "dbl (25 / 20282409603651670423947251286016) = 25 / 20282409603651670423947251286016"
  by (rule dbl_cert [where k = "- 152" and m = 7036874417766400 and u = "1 / 2 ^ 152"]) (simp_all add: pow2_def)

lemma dbl_color_136: "dbl (125 / 91343852333181432387730302044767688728495783936) = 125 / 91343852333181432387730302044767688728495783936"
  by (rule dbl_cert [where k = "- 202" and m = 8796093022208000 and u = "1 / 2 ^ 202"]) (simp_all add: pow2_def)

lemma dbl_color_137: "dbl (15 / 4503599627370496) = 15 / 4503599627370496"
  by (rule dbl_cert [where k = "- 101" and m = 8444249301319680 and u = "1 / 2 ^ 101"]) (simp_all add: pow2_def)

lemma dbl_color_138: "dbl (4503599627370481 / 4503599627370496) = 4503599627370481 / 4503599627370496"
  by (rule dbl_cert [where k = "- 53" and m = 9007199254740962 and u = "1 / 2 ^ 53"]) (simp_all add: pow2_def)

lemma dbl_color_139: "dbl (75 / 20282409603651670423947251286016) = 75 / 20282409603651670423947251286016"
  by (rule dbl_cert [where k = "- 150" and m = 5277655813324800 and u = "1 / 2 ^ 150"]) (simp_all add: pow2_def)

lemma dbl_color_140: "dbl (20282409603651602869952840728651 / 20282409603651670423947251286016) = 4503599627370481 / 4503599627370496"
  by (rule dbl_cert [where k = "- 53" and m = 9007199254740962 and u = "1 / 2 ^ 53"]) (simp_all add: pow2_def)

lemma dbl_color_141: "dbl (91343852333181128151586247269711329519726493571 / 91343852333181432387730302044767688728495783936) = 4503599627370481 / 4503599627370496"
  by (rule dbl_cert [where k = "- 53" and m = 9007199254740962 and u = "1 / 2 ^ 53"]) (simp_all add: pow2_def)

lemma dbl_color_142: "dbl (75 / 10141204801825835211973625643008) = 75 / 10141204801825835211973625643008"
  by (rule dbl_cert [where k = "- 149" and m = 5277655813324800 and u = "1 / 2 ^ 149"]) (simp_all add: pow2_def)

lemma dbl_color_143: "dbl (40564819207303340847894502571957 / 10141204801825835211973625643008) = 4"
  by (rule dbl_cert [where k = "- 51" and m = 9007199254740992 and u = "1 / 2 ^ 51"]) (simp_all add: pow2_def)

lemma dbl_color_144: "dbl (375 / 91343852333181432387730302044767688728495783936) = 375 / 91343852333181432387730302044767688728495783936"
  by (rule dbl_cert [where k = "- 200" and m = 6597069766656000 and u = "1 / 2 ^ 200"]) (simp_all add: pow2_def)

lemma dbl_color_145: "dbl (365375409332725729550921208179070754913983136119 / 91343852333181432387730302044767688728495783936) = 4"
  by (rule dbl_cert [where k = "- 50" and m = 4503599627370496 and u = "1 / 2 ^ 50"]) (simp_all add: pow2_def)

lemma dbl_color_146: "dbl (4503599627370511 / 4503599627370496) = 4503599627370511 / 4503599627370496"
  by (rule dbl_cert [where k = "- 52" and m = 4503599627370511 and u = "1 / 2 ^ 52"]) (simp_all add: pow2_def)

lemma dbl_color_147: "dbl (20282409603651737977941661843531 / 20282409603651670423947251286016) = 4503599627370511 / 4503599627370496"
  by (rule dbl_cert [where k = "- 52" and m = 4503599627370511 and u = "1 / 2 ^ 52"]) (simp_all add: pow2_def)

lemma dbl_color_148: "dbl (91343852333181736623874356819824047937265073801 / 91343852333181432387730302044767688728495783936) = 4503599627370511 / 4503599627370496"
  by (rule dbl_cert [where k = "- 52" and m = 4503599627370511 and u = "1 / 2 ^ 52"]) (simp_all add: pow2_def)

lemma dbl_color_149: "dbl (31525197391593367 / 140737488355328) = 3940649673949171 / 17592186044416"
  by (rule dbl_cert [where k = "- 45" and m = 7881299347898342 and u = "1 / 2 ^ 45"]) (simp_all add: pow2_def)

lemma dbl_color_150: "dbl (15973704928329715 / 17592186044416) = 3993426232082429 / 4398046511104"
  by (rule dbl_cert_tie [where k = "- 43" and m = 7986852464164858 and u = "1 / 2 ^ 43"]) (simp_all add: pow2_def)

lemma dbl_color_151: "dbl (130604389193744819 / 1125899906842624) = 8162774324609051 / 70368744177664"
  by (rule dbl_cert [where k = "- 46" and m = 8162774324609051 and u = "1 / 2 ^ 46"]) (simp_all add: pow2_def)

lemma dbl_color_152: "dbl (72057594037927915 / 70368744177664) = 9007199254740989 / 8796093022208"
  by (rule dbl_cert [where k = "- 43" and m = 9007199254740989 and u = "1 / 2 ^ 43"]) (simp_all add: pow2_def)

lemma dbl_color_153: "dbl (8625 / 91343852333181432387730302044767688728495783936) = 8625 / 91343852333181432387730302044767688728495783936"
  by (rule dbl_cert [where k = "- 195" and m = 4741643894784000 and u = "1 / 2 ^ 195"]) (simp_all add: pow2_def)

lemma dbl_color_154: "dbl (93536104789177755611254678084876342075001707438513 / 91343852333181432387730302044767688728495783936) = 9007199254740989 / 8796093022208"
  by (rule dbl_cert [where k = "- 43" and m = 9007199254740989 and u = "1 / 2 ^ 43"]) (simp_all add: pow2_def)

lemma dbl_color_155: "dbl (9007199254740989 / 52776558133248) = 6004799503160659 / 35184372088832"
  by (rule dbl_cert [where k = "- 45" and m = 6004799503160659 and u = "1 / 2 ^ 45"]) (simp_all add: pow2_def)

lemma dbl_color_156: "dbl (1094374709451026883 / 4503599627370496) = 2137450604396537 / 8796093022208"
  by (rule dbl_cert [where k = "- 45" and m = 8549802417586148 and u = "1 / 2 ^ 45"]) (simp_all add: pow2_def)

lemma dbl_color_157: "dbl (9772459347673081 / 8796093022208) = 1221557418459135 / 1099511627776"
  by (rule dbl_cert_tie [where k = "- 42" and m = 4886229673836540 and u = "1 / 2 ^ 42"]) (simp_all add: pow2_def)

lemma dbl_color_158: "dbl (779122735535098403 / 4503599627370496) = 1521724092841989 / 8796093022208"
  by (rule dbl_cert [where k = "- 45" and m = 6086896371367956 and u = "1 / 2 ^ 45"]) (simp_all add: pow2_def)

lemma dbl_color_159: "dbl (11294183440515069 / 8796093022208) = 2823545860128767 / 2199023255552"
  by (rule dbl_cert_tie [where k = "- 42" and m = 5647091720257534 and u = "1 / 2 ^ 42"]) (simp_all add: pow2_def)

lemma dbl_color_160: "dbl (14625 / 91343852333181432387730302044767688728495783936) = 14625 / 91343852333181432387730302044767688728495783936"
  by (rule dbl_cert [where k = "- 195" and m = 8040178778112000 and u = "1 / 2 ^ 195"]) (simp_all add: pow2_def)

lemma dbl_color_161: "dbl (117285506395804917647470839546860684083417952827681 / 91343852333181432387730302044767688728495783936) = 2823545860128767 / 2199023255552"
  by (rule dbl_cert [where k = "- 42" and m = 5647091720257534 and u = "1 / 2 ^ 42"]) (simp_all add: pow2_def)

lemma dbl_color_162: "dbl (2823545860128767 / 13194139533312) = 7529455627010045 / 35184372088832"
  by (rule dbl_cert [where k = "- 45" and m = 7529455627010045 and u = "1 / 2 ^ 45"]) (simp_all add: pow2_def)

lemma dbl_color_163: "dbl (139611588448484911 / 562949953421312) = 8725724278030307 / 35184372088832"
  by (rule dbl_cert [where k = "- 45" and m = 8725724278030307 and u = "1 / 2 ^ 45"]) (simp_all add: pow2_def)

lemma dbl_color_164: "dbl (41517559064821731 / 35184372088832) = 1297423720775679 / 1099511627776"
  by (rule dbl_cert [where k = "- 42" and m = 5189694883102716 and u = "1 / 2 ^ 42"]) (simp_all add: pow2_def)

lemma dbl_color_165: "dbl (941252322120436799 / 4503599627370496) = 919191720820739 / 4398046511104"
  by (rule dbl_cert [where k = "- 45" and m = 7353533766565912 and u = "1 / 2 ^ 45"]) (simp_all add: pow2_def)

lemma dbl_color_166: "dbl (6108886603923455 / 4398046511104) = 6108886603923455 / 4398046511104"
  by (rule dbl_cert [where k = "- 42" and m = 6108886603923455 and u = "1 / 2 ^ 42"]) (simp_all add: pow2_def)

lemma dbl_color_167: "dbl (5625 / 22835963083295358096932575511191922182123945984) = 5625 / 22835963083295358096932575511191922182123945984"
  by (rule dbl_cert [where k = "- 194" and m = 6184752906240000 and u = "1 / 2 ^ 194"]) (simp_all add: pow2_def)

lemma dbl_color_168: "dbl (31719152722697247204342488850217951380473831757305 / 22835963083295358096932575511191922182123945984) = 6108886603923455 / 4398046511104"
  by (rule dbl_cert [where k = "- 42" and m = 6108886603923455 and u = "1 / 2 ^ 42"]) (simp_all add: pow2_def)

lemma dbl_color_169: "dbl (6108886603923455 / 26388279066624) = 8145182138564607 / 35184372088832"
  by (rule dbl_cert [where k = "- 45" and m = 8145182138564607 and u = "1 / 2 ^ 45"]) (simp_all add: pow2_def)

lemma dbl_color_170: "dbl (68454714336031543 / 144115188075855872) = 8556839292003943 / 18014398509481984"
  by (rule dbl_cert [where k = "- 54" and m = 8556839292003943 and u = "1 / 2 ^ 54"]) (simp_all add: pow2_def)

lemma dbl_color_171: "dbl (42784196460019715 / 9007199254740992) = 19 / 4"
  by (rule dbl_cert [where k = "- 50" and m = 5348024557502464 and u = "1 / 2 ^ 50"]) (simp_all add: pow2_def)

lemma dbl_color_172: "dbl (2 / 5) = 3602879701896397 / 9007199254740992"
  by (rule dbl_cert [where k = "- 54" and m = 7205759403792794 and u = "1 / 2 ^ 54"]) (simp_all add: pow2_def)

lemma dbl_color_173: "dbl (1351079888211149 / 18014398509481984) = 1351079888211149 / 18014398509481984"
  by (rule dbl_cert [where k = "- 56" and m = 5404319552844596 and u = "1 / 2 ^ 56"]) (simp_all add: pow2_def)

lemma dbl_color_174: "dbl (6755399441055745 / 9007199254740992) = 6755399441055745 / 9007199254740992"
  by (rule dbl_cert [where k = "- 53" and m = 6755399441055745 and u = "1 / 2 ^ 53"]) (simp_all add: pow2_def)

lemma dbl_color_175: "dbl (45635421608216271964680197505025 / 81129638414606681695789005144064) = 2533274790395905 / 4503599627370496"
  by (rule dbl_cert [where k = "- 53" and m = 5066549580791810 and u = "1 / 2 ^ 53"]) (simp_all add: pow2_def)

lemma dbl_color_176: "dbl (17113283103081106208879724724225 / 40564819207303340847894502572032) = 1899956092796929 / 4503599627370496"
  by (rule dbl_cert [where k = "- 54" and m = 7599824371187716 and u = "1 / 2 ^ 54"]) (simp_all add: pow2_def)

lemma dbl_color_177: "dbl (20266198323167235 / 9007199254740992) = 5066549580791809 / 2251799813685248"
  by (rule dbl_cert [where k = "- 51" and m = 5066549580791809 and u = "1 / 2 ^ 51"]) (simp_all add: pow2_def)

lemma dbl_color_178: "dbl (- (2814749767106561 / 2251799813685248)) = - (2814749767106561 / 2251799813685248)"
  by (rule dbl_cert [where k = "- 52" and m = "- 5629499534213122" and u = "1 / 2 ^ 52"]) (simp_all add: pow2_def)

lemma dbl_color_179: "dbl (7599824371187715 / 4503599627370496) = 7599824371187715 / 4503599627370496"
  by (rule dbl_cert [where k = "- 52" and m = 7599824371187715 and u = "1 / 2 ^ 52"]) (simp_all add: pow2_def)

lemma dbl_color_180: "dbl (1970324836974593 / 4503599627370496) = 1970324836974593 / 4503599627370496"
  by (rule dbl_cert [where k = "- 54" and m = 7881299347898372 and u = "1 / 2 ^ 54"]) (simp_all add: pow2_def)

lemma dbl_color_181: "dbl (1 / 64) = 1 / 64"
  by (rule dbl_cert [where k = "- 58" and m = 4503599627370496 and u = "1 / 2 ^ 58"]) (simp_all add: pow2_def)

lemma dbl_color_182: "dbl (7599824371187715 / 2251799813685248) = 7599824371187715 / 2251799813685248"
  by (rule dbl_cert [where k = "- 51" and m = 7599824371187715 and u = "1 / 2 ^ 51"]) (simp_all add: pow2_def)

lemma dbl_color_183: "dbl (1407374883553277 / 2251799813685248) = 1407374883553277 / 2251799813685248"
  by (rule dbl_cert [where k = "- 53" and m = 5629499534213108 and u = "1 / 2 ^ 53"]) (simp_all add: pow2_def)

lemma dbl_color_184: "dbl (5699868278390787 / 4503599627370496) = 5699868278390787 / 4503599627370496"
  by (rule dbl_cert [where k = "- 52" and m = 5699868278390787 and u = "1 / 2 ^ 52"]) (simp_all add: pow2_def)

lemma dbl_color_185: "dbl (8514618045497341 / 4503599627370496) = 8514618045497341 / 4503599627370496"
  by (rule dbl_cert [where k = "- 52" and m = 8514618045497341 and u = "1 / 2 ^ 52"]) (simp_all add: pow2_def)

lemma dbl_color_186: "dbl (7318349394477057 / 2251799813685248) = 7318349394477057 / 2251799813685248"
  by (rule dbl_cert [where k = "- 51" and m = 7318349394477057 and u = "1 / 2 ^ 51"]) (simp_all add: pow2_def)

lemma dbl_color_187: "dbl (22236523160141829 / 4503599627370496) = 5559130790035457 / 1125899906842624"
  by (rule dbl_cert [where k = "- 50" and m = 5559130790035457 and u = "1 / 2 ^ 50"]) (simp_all add: pow2_def)

lemma dbl_color_188: "dbl (16536654881751041 / 4503599627370496) = 235 / 64"
  by (rule dbl_cert_tie [where k = "- 51" and m = 8268327440875520 and u = "1 / 2 ^ 51"]) (simp_all add: pow2_def)

lemma dbl_color_189: "dbl (253 / 64) = 253 / 64"
  by (rule dbl_cert [where k = "- 51" and m = 8901646138474496 and u = "1 / 2 ^ 51"]) (simp_all add: pow2_def)

lemma dbl_color_190: "dbl (1081356491778162307 / 2251799813685248) = 8448097592016893 / 17592186044416"
  by (rule dbl_cert [where k = "- 44" and m = 8448097592016893 and u = "1 / 2 ^ 44"]) (simp_all add: pow2_def)

lemma dbl_color_191: "dbl (8517641702473725 / 17592186044416) = 8517641702473725 / 17592186044416"
  by (rule dbl_cert [where k = "- 44" and m = 8517641702473725 and u = "1 / 2 ^ 44"]) (simp_all add: pow2_def)

lemma dbl_color_192: "dbl (59925 / 64) = 59925 / 64"
  by (rule dbl_cert [where k = "- 43" and m = 8236029286809600 and u = "1 / 2 ^ 43"]) (simp_all add: pow2_def)

lemma dbl_color_193: "dbl (24989700276092925 / 17592186044416) = 6247425069023231 / 4398046511104"
  by (rule dbl_cert [where k = "- 42" and m = 6247425069023231 and u = "1 / 2 ^ 42"]) (simp_all add: pow2_def)

lemma dbl_color_194: "dbl (13299692649578503 / 140737488355328) = 1662461581197313 / 17592186044416"
  by (rule dbl_cert_tie [where k = "- 46" and m = 6649846324789252 and u = "1 / 2 ^ 46"]) (simp_all add: pow2_def)

lemma dbl_color_195: "dbl (26652161857290237 / 17592186044416) = 6663040464322559 / 4398046511104"
  by (rule dbl_cert [where k = "- 42" and m = 6663040464322559 and u = "1 / 2 ^ 42"]) (simp_all add: pow2_def)

lemma dbl_color_196: "dbl (6663040464322559 / 26388279066624) = 8884053952430079 / 35184372088832"
  by (rule dbl_cert [where k = "- 45" and m = 8884053952430079 and u = "1 / 2 ^ 45"]) (simp_all add: pow2_def)

lemma dbl_color_197: "dbl (87 / 32) = 87 / 32"
  by (rule dbl_cert [where k = "- 51" and m = 6122080743456768 and u = "1 / 2 ^ 51"]) (simp_all add: pow2_def)

lemma dbl_color_198: "dbl (59602326318481387 / 140737488355328) = 7450290789810173 / 17592186044416"
  by (rule dbl_cert [where k = "- 44" and m = 7450290789810173 and u = "1 / 2 ^ 44"]) (simp_all add: pow2_def)

lemma dbl_color_199: "dbl (7498119545618429 / 17592186044416) = 7498119545618429 / 17592186044416"
  by (rule dbl_cert [where k = "- 44" and m = 7498119545618429 and u = "1 / 2 ^ 44"]) (simp_all add: pow2_def)

lemma dbl_color_200: "dbl (23970178119237629 / 17592186044416) = 5992544529809407 / 4398046511104"
  by (rule dbl_cert [where k = "- 42" and m = 5992544529809407 and u = "1 / 2 ^ 42"]) (simp_all add: pow2_def)

lemma dbl_color_201: "dbl (461689330549653747 / 4503599627370496) = 1803473947459585 / 17592186044416"
  by (rule dbl_cert [where k = "- 46" and m = 7213895789838340 and u = "1 / 2 ^ 46"]) (simp_all add: pow2_def)

lemma dbl_color_202: "dbl (25773652066697213 / 17592186044416) = 6443413016674303 / 4398046511104"
  by (rule dbl_cert [where k = "- 42" and m = 6443413016674303 and u = "1 / 2 ^ 42"]) (simp_all add: pow2_def)

lemma dbl_color_203: "dbl (6443413016674303 / 26388279066624) = 8591217355565737 / 35184372088832"
  by (rule dbl_cert [where k = "- 45" and m = 8591217355565737 and u = "1 / 2 ^ 45"]) (simp_all add: pow2_def)

lemma dbl_color_204: "dbl (97 / 64) = 97 / 64"
  by (rule dbl_cert [where k = "- 52" and m = 6825768185233408 and u = "1 / 2 ^ 52"]) (simp_all add: pow2_def)

lemma dbl_color_205: "dbl (76631562409476069 / 281474976710656) = 2394736325296127 / 8796093022208"
  by (rule dbl_cert [where k = "- 44" and m = 4789472650592254 and u = "1 / 2 ^ 44"]) (simp_all add: pow2_def)

lemma dbl_color_206: "dbl (2408067903782911 / 8796093022208) = 2408067903782911 / 8796093022208"
  by (rule dbl_cert [where k = "- 44" and m = 4816135807565822 and u = "1 / 2 ^ 44"]) (simp_all add: pow2_def)

lemma dbl_color_207: "dbl (44885 / 64) = 44885 / 64"
  by (rule dbl_cert [where k = "- 43" and m = 6168947426590720 and u = "1 / 2 ^ 43"]) (simp_all add: pow2_def)

lemma dbl_color_208: "dbl (8577015330373631 / 8796093022208) = 8577015330373631 / 8796093022208"
  by (rule dbl_cert [where k = "- 43" and m = 8577015330373631 and u = "1 / 2 ^ 43"]) (simp_all add: pow2_def)

lemma dbl_color_209: "dbl (58898638876704799 / 562949953421312) = 1840582464897025 / 17592186044416"
  by (rule dbl_cert [where k = "- 46" and m = 7362329859588100 and u = "1 / 2 ^ 46"]) (simp_all add: pow2_def)

lemma dbl_color_210: "dbl (18994613125644287 / 17592186044416) = 34551 / 32"
  by (rule dbl_cert [where k = "- 42" and m = 4748653281411072 and u = "1 / 2 ^ 42"]) (simp_all add: pow2_def)

lemma dbl_color_211: "dbl (11517 / 64) = 11517 / 64"
  by (rule dbl_cert [where k = "- 45" and m = 6331537708548096 and u = "1 / 2 ^ 45"]) (simp_all add: pow2_def)

lemma dbl_color_212: "dbl (- (10239 / 256)) = - (10239 / 256)"
  by (rule dbl_cert [where k = "- 47" and m = "- 5628949778399232" and u = "1 / 2 ^ 47"]) (simp_all add: pow2_def)

lemma dbl_color_213: "dbl (36889885267717208883 / 36893488147419103232) = 2251579911359693 / 2251799813685248"
  by (rule dbl_cert [where k = "- 53" and m = 9006319645438772 and u = "1 / 2 ^ 53"]) (simp_all add: pow2_def)

lemma dbl_color_214: "dbl (11257899556798465 / 1125899906842624) = 10239 / 1024"
  by (rule dbl_cert_tie [where k = "- 49" and m = 5628949778399232 and u = "1 / 2 ^ 49"]) (simp_all add: pow2_def)

lemma dbl_color_215: "dbl (899840316171879 / 9007199254740992) = 899840316171879 / 9007199254740992"
  by (rule dbl_cert [where k = "- 56" and m = 7198722529375032 and u = "1 / 2 ^ 56"]) (simp_all add: pow2_def)

lemma dbl_color_216: "dbl (4499201580859395 / 4503599627370496) = 4499201580859395 / 4503599627370496"
  by (rule dbl_cert [where k = "- 53" and m = 8998403161718790 and u = "1 / 2 ^ 53"]) (simp_all add: pow2_def)

lemma dbl_color_217: "dbl (20242814865207679084426759766025 / 20282409603651670423947251286016) = 2247403914657795 / 2251799813685248"
  by (rule dbl_cert [where k = "- 53" and m = 8989615658631180 and u = "1 / 2 ^ 53"]) (simp_all add: pow2_def)

lemma dbl_color_218: "dbl (10111523245657944110553435734025 / 10141204801825835211973625643008) = 4490418368544777 / 4503599627370496"
  by (rule dbl_cert [where k = "- 53" and m = 8980836737089554 and u = "1 / 2 ^ 53"]) (simp_all add: pow2_def)

lemma dbl_color_219: "dbl (13497604742578185 / 4503599627370496) = 1687200592822273 / 562949953421312"
  by (rule dbl_cert_tie [where k = "- 51" and m = 6748802371289092 and u = "1 / 2 ^ 51"]) (simp_all add: pow2_def)

lemma dbl_color_220: "dbl (- (1124250639400961 / 562949953421312)) = - (1124250639400961 / 562949953421312)"
  by (rule dbl_cert [where k = "- 52" and m = "- 8994005115207688" and u = "1 / 2 ^ 52"]) (simp_all add: pow2_def)

lemma dbl_color_221: "dbl (6742211743973385 / 2251799813685248) = 6742211743973385 / 2251799813685248"
  by (rule dbl_cert [where k = "- 51" and m = 6742211743973385 and u = "1 / 2 ^ 51"]) (simp_all add: pow2_def)

lemma dbl_color_222: "dbl (2245209186369541 / 2251799813685248) = 2245209186369541 / 2251799813685248"
  by (rule dbl_cert [where k = "- 53" and m = 8980836745478164 and u = "1 / 2 ^ 53"]) (simp_all add: pow2_def)

lemma dbl_color_223: "dbl (4194305 / 4503599627370496) = 4194305 / 4503599627370496"
  by (rule dbl_cert [where k = "- 82" and m = 4503600701112320 and u = "1 / 2 ^ 82"]) (simp_all add: pow2_def)

lemma dbl_color_224: "dbl (6742211743973385 / 1125899906842624) = 6742211743973385 / 1125899906842624"
  by (rule dbl_cert [where k = "- 50" and m = 6742211743973385 and u = "1 / 2 ^ 50"]) (simp_all add: pow2_def)

lemma dbl_color_225: "dbl (- (2238612116602889 / 1125899906842624)) = - (2238612116602889 / 1125899906842624)"
  by (rule dbl_cert [where k = "- 52" and m = "- 8954448466411556" and u = "1 / 2 ^ 52"]) (simp_all add: pow2_def)

lemma dbl_color_226: "dbl (13471255105634331 / 4503599627370496) = 3367813776408583 / 1125899906842624"
  by (rule dbl_cert_tie [where k = "- 51" and m = 6735627552817166 and u = "1 / 2 ^ 51"]) (simp_all add: pow2_def)

lemma dbl_color_227: "dbl (564600829902847 / 562949953421312) = 564600829902847 / 562949953421312"
  by (rule dbl_cert [where k = "- 52" and m = 4516806639222776 and u = "1 / 2 ^ 52"]) (simp_all add: pow2_def)

lemma dbl_color_228: "dbl (2250150546243585 / 562949953421312) = 2250150546243585 / 562949953421312"
  by (rule dbl_cert [where k = "- 51" and m = 9000602184974340 and u = "1 / 2 ^ 51"]) (simp_all add: pow2_def)

lemma dbl_color_229: "dbl (15742813928947725 / 2251799813685248) = 3935703482236931 / 562949953421312"
  by (rule dbl_cert_tie [where k = "- 50" and m = 7871406964473862 and u = "1 / 2 ^ 50"]) (simp_all add: pow2_def)

lemma dbl_color_230: "dbl (4503593188065279 / 1125899906842624) = 4503593188065279 / 1125899906842624"
  by (rule dbl_cert [where k = "- 51" and m = 9007186376130558 and u = "1 / 2 ^ 51"]) (simp_all add: pow2_def)

lemma dbl_color_231: "dbl (121634845 / 1125899906842624) = 121634845 / 1125899906842624"
  by (rule dbl_cert [where k = "- 76" and m = 8162776270766080 and u = "1 / 2 ^ 76"]) (simp_all add: pow2_def)

lemma dbl_color_232: "dbl (38957457263296443 / 562949953421312) = 4869682157912055 / 70368744177664"
  by (rule dbl_cert [where k = "- 46" and m = 4869682157912055 and u = "1 / 2 ^ 46"]) (simp_all add: pow2_def)

lemma dbl_color_233: "dbl (77914914648227725 / 1125899906842624) = 4869682165514233 / 70368744177664"
  by (rule dbl_cert [where k = "- 46" and m = 4869682165514233 and u = "1 / 2 ^ 46"]) (simp_all add: pow2_def)

lemma dbl_color_234: "dbl (220676066215198671 / 1125899906842624) = 3448063534612479 / 17592186044416"
  by (rule dbl_cert [where k = "- 45" and m = 6896127069224958 and u = "1 / 2 ^ 45"]) (simp_all add: pow2_def)

lemma dbl_color_235: "dbl (18661936303964149 / 70368744177664) = 4665484075991037 / 17592186044416"
  by (rule dbl_cert [where k = "- 44" and m = 4665484075991037 and u = "1 / 2 ^ 44"]) (simp_all add: pow2_def)

lemma dbl_color_236: "dbl (130222132687798533 / 4503599627370496) = 508680205811713 / 17592186044416"
  by (rule dbl_cert [where k = "- 48" and m = 8138883292987408 and u = "1 / 2 ^ 48"]) (simp_all add: pow2_def)

lemma dbl_color_237: "dbl (2587082140901375 / 8796093022208) = 2587082140901375 / 8796093022208"
  by (rule dbl_cert [where k = "- 44" and m = 5174164281802750 and u = "1 / 2 ^ 44"]) (simp_all add: pow2_def)

lemma dbl_color_238: "dbl (2587082140901375 / 52776558133248) = 6898885709070333 / 140737488355328"
  by (rule dbl_cert [where k = "- 47" and m = 6898885709070333 and u = "1 / 2 ^ 47"]) (simp_all add: pow2_def)

lemma dbl_color_239: "dbl (725614765 / 4503599627370496) = 725614765 / 4503599627370496"
  by (rule dbl_cert [where k = "- 75" and m = 6086897822597120 and u = "1 / 2 ^ 75"]) (simp_all add: pow2_def)

lemma dbl_color_240: "dbl (66058297098633099 / 562949953421312) = 8257287137329137 / 70368744177664"
  by (rule dbl_cert [where k = "- 46" and m = 8257287137329137 and u = "1 / 2 ^ 46"]) (simp_all add: pow2_def)

lemma dbl_color_241: "dbl (528466377514679533 / 4503599627370496) = 2064321787166717 / 17592186044416"
  by (rule dbl_cert [where k = "- 46" and m = 8257287148666868 and u = "1 / 2 ^ 46"]) (simp_all add: pow2_def)

lemma dbl_color_242: "dbl (121597016077762533 / 562949953421312) = 3799906752430079 / 17592186044416"
  by (rule dbl_cert [where k = "- 45" and m = 7599813504860158 and u = "1 / 2 ^ 45"]) (simp_all add: pow2_def)

lemma dbl_color_243: "dbl (1466057134899199 / 4398046511104) = 1466057134899199 / 4398046511104"
  by (rule dbl_cert [where k = "- 44" and m = 5864228539596796 and u = "1 / 2 ^ 44"]) (simp_all add: pow2_def)

lemma dbl_color_244: "dbl (- (40413765316902993 / 4503599627370496)) = - (2525860332306437 / 281474976710656)"
  by (rule dbl_cert [where k = "- 49" and m = "- 5051720664612874" and u = "1 / 2 ^ 49"]) (simp_all add: pow2_def)

lemma dbl_color_245: "dbl (91301796301242299 / 281474976710656) = 1426590567206911 / 4398046511104"
  by (rule dbl_cert [where k = "- 44" and m = 5706362268827644 and u = "1 / 2 ^ 44"]) (simp_all add: pow2_def)

lemma dbl_color_246: "dbl (1426590567206911 / 26388279066624) = 7608483025103525 / 140737488355328"
  by (rule dbl_cert [where k = "- 47" and m = 7608483025103525 and u = "1 / 2 ^ 47"]) (simp_all add: pow2_def)

lemma dbl_color_247: "dbl (876609745 / 4503599627370496) = 876609745 / 4503599627370496"
  by (rule dbl_cert [where k = "- 75" and m = 7353535519784960 and u = "1 / 2 ^ 75"]) (simp_all add: pow2_def)

lemma dbl_color_248: "dbl (25407037345628115 / 140737488355328) = 6351759336407029 / 35184372088832"
  by (rule dbl_cert [where k = "- 45" and m = 6351759336407029 and u = "1 / 2 ^ 45"]) (simp_all add: pow2_def)

lemma dbl_color_249: "dbl (813025195936709457 / 4503599627370496) = 6351759343255543 / 35184372088832"
  by (rule dbl_cert [where k = "- 45" and m = 6351759343255543 and u = "1 / 2 ^ 45"]) (simp_all add: pow2_def)

lemma dbl_color_250: "dbl (671035385021726571 / 1125899906842624) = 5242463945482239 / 8796093022208"
  by (rule dbl_cert [where k = "- 43" and m = 5242463945482239 and u = "1 / 2 ^ 43"]) (simp_all add: pow2_def)

lemma dbl_color_251: "dbl (27321615125184499 / 35184372088832) = 6830403781296125 / 8796093022208"
  by (rule dbl_cert [where k = "- 43" and m = 6830403781296125 and u = "1 / 2 ^ 43"]) (simp_all add: pow2_def)

lemma dbl_color_252: "dbl (264934683744141843 / 2251799813685248) = 8279208867004433 / 70368744177664"
  by (rule dbl_cert [where k = "- 46" and m = 8279208867004433 and u = "1 / 2 ^ 46"]) (simp_all add: pow2_def)

lemma dbl_color_253: "dbl (62922439117373433 / 70368744177664) = 7865304889671679 / 8796093022208"
  by (rule dbl_cert [where k = "- 43" and m = 7865304889671679 and u = "1 / 2 ^ 43"]) (simp_all add: pow2_def)

lemma dbl_color_254: "dbl (7865304889671679 / 52776558133248) = 5243536593114453 / 35184372088832"
  by (rule dbl_cert [where k = "- 45" and m = 5243536593114453 and u = "1 / 2 ^ 45"]) (simp_all add: pow2_def)

lemma dbl_color_255: "dbl (- (47223664828696452136959 / 1180591620717411303424)) = - 40"
  by (rule dbl_cert [where k = "- 47" and m = "- 5629499534213120" and u = "1 / 2 ^ 47"]) (simp_all add: pow2_def)

lemmas dbl_color =
  dbl_color_1 dbl_color_2 dbl_color_3 dbl_color_4 dbl_color_5 dbl_color_6 dbl_color_7 dbl_color_8
  dbl_color_9 dbl_color_10 dbl_color_11 dbl_color_12 dbl_color_13 dbl_color_14 dbl_color_15 dbl_color_16
  dbl_color_17 dbl_color_18 dbl_color_19 dbl_color_20 dbl_color_21 dbl_color_22 dbl_color_23 dbl_color_24
  dbl_color_25 dbl_color_26 dbl_color_27 dbl_color_28 dbl_color_29 dbl_color_30 dbl_color_31 dbl_color_32
  dbl_color_33 dbl_color_34 dbl_color_35 dbl_color_36 dbl_color_37 dbl_color_38 dbl_color_39 dbl_color_40
  dbl_color_41 dbl_color_42 dbl_color_43 dbl_color_44 dbl_color_45 dbl_color_46 dbl_color_47 dbl_color_48
  dbl_color_49 dbl_color_50 dbl_color_51 dbl_color_52 dbl_color_53 dbl_color_54 dbl_color_55 dbl_color_56
  dbl_color_57 dbl_color_58 dbl_color_59 dbl_color_60 dbl_color_61 dbl_color_62 dbl_color_63 dbl_color_64
  dbl_color_65 dbl_color_66 dbl_color_67 dbl_color_68 dbl_color_69 dbl_color_70 dbl_color_71 dbl_color_72
  dbl_color_73 dbl_color_74 dbl_color_75 dbl_color_76 dbl_color_77 dbl_color_78 dbl_color_79 dbl_color_80
  dbl_color_81 dbl_color_82 dbl_color_83 dbl_color_84 dbl_color_85 dbl_color_86 dbl_color_87 dbl_color_88
  dbl_color_89 dbl_color_90 dbl_color_91 dbl_color_92 dbl_color_93 dbl_color_94 dbl_color_95 dbl_color_96
  dbl_color_97 dbl_color_98 dbl_color_99 dbl_color_100 dbl_color_101 dbl_color_102 dbl_color_103 dbl_color_104
  dbl_color_105 dbl_color_106 dbl_color_107 dbl_color_108 dbl_color_109 dbl_color_110 dbl_color_111 dbl_color_112
  dbl_color_113 dbl_color_114 dbl_color_115 dbl_color_116 dbl_color_117 dbl_color_118 dbl_color_119 dbl_color_120
  dbl_color_121 dbl_color_122 dbl_color_123 dbl_color_124 dbl_color_125 dbl_color_126 dbl_color_127 dbl_color_128
  dbl_color_129 dbl_color_130 dbl_color_131 dbl_color_132 dbl_color_133 dbl_color_134 dbl_color_135 dbl_color_136
  dbl_color_137 dbl_color_138 dbl_color_139 dbl_color_140 dbl_color_141 dbl_color_142 dbl_color_143 dbl_color_144
  dbl_color_145 dbl_color_146 dbl_color_147 dbl_color_148 dbl_color_149 dbl_color_150 dbl_color_151 dbl_color_152
  dbl_color_153 dbl_color_154 dbl_color_155 dbl_color_156 dbl_color_157 dbl_color_158 dbl_color_159 dbl_color_160
  dbl_color_161 dbl_color_162 dbl_color_163 dbl_color_164 dbl_color_165 dbl_color_166 dbl_color_167 dbl_color_168
  dbl_color_169 dbl_color_170 dbl_color_171 dbl_color_172 dbl_color_173 dbl_color_174 dbl_color_175 dbl_color_176
  dbl_color_177 dbl_color_178 dbl_color_179 dbl_color_180 dbl_color_181 dbl_color_182 dbl_color_183 dbl_color_184
  dbl_color_185 dbl_color_186 dbl_color_187 dbl_color_188 dbl_color_189 dbl_color_190 dbl_color_191 dbl_color_192
  dbl_color_193 dbl_color_194 dbl_color_195 dbl_color_196 dbl_color_197 dbl_color_198 dbl_color_199 dbl_color_200
  dbl_color_201 dbl_color_202 dbl_color_203 dbl_color_204 dbl_color_205 dbl_color_206 dbl_color_207 dbl_color_208
  dbl_color_209 dbl_color_210 dbl_color_211 dbl_color_212 dbl_color_213 dbl_color_214 dbl_color_215 dbl_color_216
  dbl_color_217 dbl_color_218 dbl_color_219 dbl_color_220 dbl_color_221 dbl_color_222 dbl_color_223 dbl_color_224
  dbl_color_225 dbl_color_226 dbl_color_227 dbl_color_228 dbl_color_229 dbl_color_230 dbl_color_231 dbl_color_232
  dbl_color_233 dbl_color_234 dbl_color_235 dbl_color_236 dbl_color_237 dbl_color_238 dbl_color_239 dbl_color_240
  dbl_color_241 dbl_color_242 dbl_color_243 dbl_color_244 dbl_color_245 dbl_color_246 dbl_color_247 dbl_color_248
  dbl_color_249 dbl_color_250 dbl_color_251 dbl_color_252 dbl_color_253 dbl_color_254 dbl_color_255

section \<open>Facts about the color scale\<close>

lemmas color_defs = buildColorScale_def scaleSequential_def sequential_arg_def js_fmul_def js_fsub_def
  basis_def spline_segment_def basis_spline_def interpolateRdYlBu_def fadd_def fsub_def fmul_def fdiv_def
  max_double_def Let_def dbl_zero dbl_one dbl_numeral dbl_neg_numeral
  TEMP_MIN_def TEMP_MAX_def RdYlBu_r_def RdYlBu_g_def RdYlBu_b_def




lemma buildColorScale_unknown:
  "buildColorScale NaN = None" "buildColorScale Undefined = None"
  by (simp_all add: buildColorScale_def scaleSequential_def)








lemma position_10: "sequential_arg TEMP_MAX TEMP_MIN (Num 10) = Num (3 / 4)"
  by (simp add: color_defs dbl_color)

lemma position_30: "sequential_arg TEMP_MAX TEMP_MIN (Num 30) = Num (1 / 4)"
  by (simp add: color_defs dbl_color)






lemma color_12: "buildColorScale (Num 12) = Some (Rgb 171 214 231)"
  by (simp add: color_defs dbl_color)

lemma color_21: "buildColorScale (Num 21) = Some (Rgb 252 244 180)"
  by (simp add: color_defs dbl_color)




section \<open>Facts about the click handler\<close>

lemma click_fields:
  "mode (click s) = (if mode s = Mode_max then Mode_min else Mode_max)"
  "bound (click s) = bound s"
  "fills (click s) =
     map (\<lambda>d. buildColorScale ((if mode s = Mode_max then avgMin else avgMax) d)) (bound s)"
  "label (click s) = ''Showing: '' @ (if mode s = Mode_max then ''Min'' else ''Max'') @ '' Temp''"
  by (simp_all add: click_def Let_def)

lemma drawMatrix_fields:
  "mode (drawMatrix cells l0) = Mode_max"
  "bound (drawMatrix cells l0) = cells"
  "fills (drawMatrix cells l0) = map (\<lambda>d. buildColorScale (avgMax d)) cells"
  "label (drawMatrix cells l0) = l0"
  by (simp_all add: drawMatrix_def Let_def)

lemma clicks_bound: "bound ((click ^^ k) (drawMatrix cells l0)) = cells"
  by (induction k) (simp_all add: click_fields drawMatrix_fields)

lemma clicks_fills:
  "fills ((click ^^ k) (drawMatrix cells l0)) =
     map (\<lambda>d. buildColorScale
       ((if mode ((click ^^ k) (drawMatrix cells l0)) = Mode_max then avgMax else avgMin) d)) cells"
  by (induction k) (simp_all add: click_fields drawMatrix_fields clicks_bound)

lemma clicks_label:
  "0 < k \<Longrightarrow> label ((click ^^ k) (drawMatrix cells l0)) =
     ''Showing: '' @ (if mode ((click ^^ k) (drawMatrix cells l0)) = Mode_max then ''Max'' else ''Min'')
       @ '' Temp''"
  by (cases k) (simp_all add: click_fields)

lemma click_click_mode: "mode (click (click s)) = mode s"
  by (cases "mode s") (simp_all add: click_fields)

lemma click_click_fills:
  "fills s = map (\<lambda>d. buildColorScale ((if mode s = Mode_max then avgMax else avgMin) d)) (bound s)
   \<Longrightarrow> fills (click (click s)) = fills s"
  by (cases "mode s") (simp_all add: click_fields)

lemma click_click_label:
  "label s = ''Showing: '' @ (if mode s = Mode_max then ''Max'' else ''Min'') @ '' Temp''
   \<Longrightarrow> label (click (click s)) = label s"
  by (cases "mode s") (simp_all add: click_fields)

section \<open>Facts about the scales\<close>









section \<open>Facts about the extremes\<close>

lemma js_ge_trans: "js_ge a b \<Longrightarrow> js_ge b c \<Longrightarrow> js_ge a c"
  by (cases a; cases b; cases c) simp_all

lemma js_ge_refl: "is_num a \<Longrightarrow> js_ge a a"
  by (cases a) simp_all

lemma js_lt_not_ge: "is_num a \<Longrightarrow> is_num b \<Longrightarrow> js_lt a b = (\<not> js_ge a b)"
  by (cases a; cases b) auto

lemma js_ge_total: "is_num a \<Longrightarrow> is_num b \<Longrightarrow> js_ge a b \<or> js_ge b a"
  by (cases a; cases b) auto

lemma js_ge_antisym: "js_ge a b \<Longrightarrow> js_ge b a \<Longrightarrow> a = b"
  by (cases a; cases b) simp_all

lemma d3_min_step_cases:
  "\<not> is_num v \<Longrightarrow> d3_min_step mn v = mn"
  "is_num v \<Longrightarrow> d3_min_step Undefined v = v"
  "is_num v \<Longrightarrow> is_num mn \<Longrightarrow> d3_min_step mn v = (if js_ge v mn then mn else v)"
  by (cases v; cases mn; auto simp: d3_min_step_def)+

lemma d3_max_step_cases:
  "\<not> is_num v \<Longrightarrow> d3_max_step mx v = mx"
  "is_num v \<Longrightarrow> d3_max_step Undefined v = v"
  "is_num v \<Longrightarrow> is_num mx \<Longrightarrow> d3_max_step mx v = (if js_ge mx v then mx else v)"
  by (cases v; cases mx; auto simp: d3_max_step_def)+

lemma foldl_min_num:
  assumes "is_num acc"
  shows "is_num (foldl d3_min_step acc vs)
       \<and> (foldl d3_min_step acc vs = acc \<or> foldl d3_min_step acc vs \<in> set vs)
       \<and> js_ge acc (foldl d3_min_step acc vs)
       \<and> (\<forall>v\<in>set vs. is_num v \<longrightarrow> js_ge v (foldl d3_min_step acc vs))"
  using assms
proof (induction vs arbitrary: acc)
  case Nil then show ?case by (simp add: js_ge_refl)
next
  case (Cons v vs)
  show ?case
  proof (cases "is_num v")
    case False
    then show ?thesis using Cons.IH [OF Cons.prems] by (auto simp: d3_min_step_cases)
  next
    case True
    show ?thesis
    proof (cases "js_ge v acc")
      case ge: True
      then show ?thesis using Cons.IH [OF Cons.prems] True Cons.prems
        by (auto simp: d3_min_step_cases intro: js_ge_trans)
    next
      case lt: False
      then have "js_ge acc v" using js_ge_total [OF True Cons.prems] by simp
      then show ?thesis using Cons.IH [OF True] True Cons.prems lt
        by (auto simp: d3_min_step_cases intro: js_ge_trans)
    qed
  qed
qed

lemma foldl_max_num:
  assumes "is_num acc"
  shows "is_num (foldl d3_max_step acc vs)
       \<and> (foldl d3_max_step acc vs = acc \<or> foldl d3_max_step acc vs \<in> set vs)
       \<and> js_ge (foldl d3_max_step acc vs) acc
       \<and> (\<forall>v\<in>set vs. is_num v \<longrightarrow> js_ge (foldl d3_max_step acc vs) v)"
  using assms
proof (induction vs arbitrary: acc)
  case Nil then show ?case by (simp add: js_ge_refl)
next
  case (Cons v vs)
  show ?case
  proof (cases "is_num v")
    case False
    then show ?thesis using Cons.IH [OF Cons.prems] by (auto simp: d3_max_step_cases)
  next
    case True
    show ?thesis
    proof (cases "js_ge acc v")
      case ge: True
      then show ?thesis using Cons.IH [OF Cons.prems] True Cons.prems
        by (auto simp: d3_max_step_cases intro: js_ge_trans)
    next
      case lt: False
      then have "js_ge v acc" using js_ge_total [OF True Cons.prems] by simp
      then show ?thesis using Cons.IH [OF True] True Cons.prems lt
        by (auto simp: d3_max_step_cases intro: js_ge_trans)
    qed
  qed
qed

lemma d3_min_none: "\<not> list_ex is_num vs \<Longrightarrow> d3_min vs = Undefined"
  unfolding d3_min_def by (induction vs) (simp_all add: d3_min_step_cases)

lemma d3_max_none: "\<not> list_ex is_num vs \<Longrightarrow> d3_max vs = Undefined"
  unfolding d3_max_def by (induction vs) (simp_all add: d3_max_step_cases)

lemma d3_min_some:
  "list_ex is_num vs \<Longrightarrow>
   is_num (d3_min vs) \<and> d3_min vs \<in> set vs \<and> (\<forall>v\<in>set vs. is_num v \<longrightarrow> js_ge v (d3_min vs))"
  unfolding d3_min_def
proof (induction vs)
  case Nil then show ?case by simp
next
  case (Cons v vs)
  show ?case
  proof (cases "is_num v")
    case True
    then show ?thesis using foldl_min_num [OF True, of vs] by (auto simp: d3_min_step_cases)
  next
    case False
    then show ?thesis using Cons by (auto simp: d3_min_step_cases)
  qed
qed

lemma d3_max_some:
  "list_ex is_num vs \<Longrightarrow>
   is_num (d3_max vs) \<and> d3_max vs \<in> set vs \<and> (\<forall>v\<in>set vs. is_num v \<longrightarrow> js_ge (d3_max vs) v)"
  unfolding d3_max_def
proof (induction vs)
  case Nil then show ?case by simp
next
  case (Cons v vs)
  show ?case
  proof (cases "is_num v")
    case True
    then show ?thesis using foldl_max_num [OF True, of vs] by (auto simp: d3_max_step_cases)
  next
    case False
    then show ?thesis using Cons by (auto simp: d3_max_step_cases)
  qed
qed

lemma aggregate_days_cover:
  "d \<in> set data \<longleftrightarrow> (\<exists>c\<in>set (aggregateByYearMonth data). d \<in> set (days c))"
proof
  assume d: "d \<in> set data"
  then have "row_ym d \<in> cell_ym ` set (aggregateByYearMonth data)"
    unfolding aggregate_pairs by (rule imageI)
  then obtain c where c: "c \<in> set (aggregateByYearMonth data)" "cell_ym c = row_ym d" by auto
  with d have "d \<in> set (days c)" using aggregate_cell(1) [OF c(1)] by simp
  with c show "\<exists>c\<in>set (aggregateByYearMonth data). d \<in> set (days c)" by blast
next
  assume "\<exists>c\<in>set (aggregateByYearMonth data). d \<in> set (days c)"
  then obtain c where c: "c \<in> set (aggregateByYearMonth data)" "d \<in> set (days c)" by blast
  then show "d \<in> set data" using aggregate_cell(1) [OF c(1)] by simp
qed

lemma tempMin_global:
  "if list_ex is_num (map minT data)
   then is_num (tempMin (aggregateByYearMonth data))
        \<and> tempMin (aggregateByYearMonth data) \<in> set (map minT data)
        \<and> (\<forall>v\<in>set (map minT data). is_num v \<longrightarrow> js_ge v (tempMin (aggregateByYearMonth data)))
   else tempMin (aggregateByYearMonth data) = Undefined"
proof (cases "list_ex is_num (map minT data)")
  case False
  have "\<not> list_ex is_num (map minT (days c))" if "c \<in> set (aggregateByYearMonth data)" for c
    using False that aggregate_days_cover [of _ data] by (auto simp: list_ex_iff)
  then have "d3_min (map minT (days c)) = Undefined" if "c \<in> set (aggregateByYearMonth data)" for c
    using that by (intro d3_min_none) simp
  then have "\<not> list_ex is_num (map (\<lambda>c. d3_min (map minT (days c))) (aggregateByYearMonth data))"
    by (auto simp: list_ex_iff)
  then have "tempMin (aggregateByYearMonth data) = Undefined"
    unfolding tempMin_def by (rule d3_min_none)
  with False show ?thesis by simp
next
  case True
  let ?cells = "aggregateByYearMonth data"
  let ?inner = "\<lambda>c. d3_min (map minT (days c))"
  have inner: "is_num (?inner c) \<and> js_ge (minT d) (?inner c)"
    if "c \<in> set ?cells" "d \<in> set (days c)" "is_num (minT d)" for c d
  proof -
    have "list_ex is_num (map minT (days c))" using that by (auto simp: list_ex_iff)
    from d3_min_some [OF this] that show ?thesis by auto
  qed
  from True obtain d0 where d0: "d0 \<in> set data" "is_num (minT d0)" by (auto simp: list_ex_iff)
  then obtain c0 where c0: "c0 \<in> set ?cells" "d0 \<in> set (days c0)"
    using aggregate_days_cover [of d0 data] by blast
  have "is_num (?inner c0)" using inner [OF c0 d0(2)] by simp
  then have "list_ex is_num (map ?inner ?cells)" using c0(1) by (auto simp: list_ex_iff)
  from d3_min_some [OF this]
  have m: "is_num (tempMin ?cells)" "tempMin ?cells \<in> set (map ?inner ?cells)"
    "\<forall>v\<in>set (map ?inner ?cells). is_num v \<longrightarrow> js_ge v (tempMin ?cells)"
    unfolding tempMin_def by blast+
  from m(2) obtain c1 where c1: "c1 \<in> set ?cells" "tempMin ?cells = ?inner c1" by auto
  have "list_ex is_num (map minT (days c1))"
  proof (rule ccontr)
    assume "\<not> list_ex is_num (map minT (days c1))"
    then have "d3_min (map minT (days c1)) = Undefined" by (rule d3_min_none)
    with m(1) c1(2) show False by simp
  qed
  from d3_min_some [OF this] have "?inner c1 \<in> set (map minT (days c1))" by blast
  then have mem: "tempMin ?cells \<in> set (map minT data)"
    using aggregate_days_cover [of _ data] c1 by auto
  have low: "js_ge v (tempMin ?cells)" if "v \<in> set (map minT data)" "is_num v" for v
  proof -
    from that obtain d where d: "d \<in> set data" "v = minT d" by auto
    then obtain c where c: "c \<in> set ?cells" "d \<in> set (days c)"
      using aggregate_days_cover [of d data] by blast
    from inner [OF c] that d have i: "is_num (?inner c)" "js_ge v (?inner c)" by simp_all
    from m(3) c(1) i(1) have "js_ge (?inner c) (tempMin ?cells)" by auto
    with i(2) show ?thesis by (rule js_ge_trans)
  qed
  from True m(1) mem low show ?thesis by simp
qed

lemma tempMax_global:
  "if list_ex is_num (map maxT data)
   then is_num (tempMax (aggregateByYearMonth data))
        \<and> tempMax (aggregateByYearMonth data) \<in> set (map maxT data)
        \<and> (\<forall>v\<in>set (map maxT data). is_num v \<longrightarrow> js_ge (tempMax (aggregateByYearMonth data)) v)
   else tempMax (aggregateByYearMonth data) = Undefined"
proof (cases "list_ex is_num (map maxT data)")
  case False
  have "\<not> list_ex is_num (map maxT (days c))" if "c \<in> set (aggregateByYearMonth data)" for c
    using False that aggregate_days_cover [of _ data] by (auto simp: list_ex_iff)
  then have "d3_max (map maxT (days c)) = Undefined" if "c \<in> set (aggregateByYearMonth data)" for c
    using that by (intro d3_max_none) simp
  then have "\<not> list_ex is_num (map (\<lambda>c. d3_max (map maxT (days c))) (aggregateByYearMonth data))"
    by (auto simp: list_ex_iff)
  then have "tempMax (aggregateByYearMonth data) = Undefined"
    unfolding tempMax_def by (rule d3_max_none)
  with False show ?thesis by simp
next
  case True
  let ?cells = "aggregateByYearMonth data"
  let ?inner = "\<lambda>c. d3_max (map maxT (days c))"
  have inner: "is_num (?inner c) \<and> js_ge (?inner c) (maxT d)"
    if "c \<in> set ?cells" "d \<in> set (days c)" "is_num (maxT d)" for c d
  proof -
    have "list_ex is_num (map maxT (days c))" using that by (auto simp: list_ex_iff)
    from d3_max_some [OF this] that show ?thesis by auto
  qed
  from True obtain d0 where d0: "d0 \<in> set data" "is_num (maxT d0)" by (auto simp: list_ex_iff)
  then obtain c0 where c0: "c0 \<in> set ?cells" "d0 \<in> set (days c0)"
    using aggregate_days_cover [of d0 data] by blast
  have "is_num (?inner c0)" using inner [OF c0 d0(2)] by simp
  then have "list_ex is_num (map ?inner ?cells)" using c0(1) by (auto simp: list_ex_iff)
  from d3_max_some [OF this]
  have m: "is_num (tempMax ?cells)" "tempMax ?cells \<in> set (map ?inner ?cells)"
    "\<forall>v\<in>set (map ?inner ?cells). is_num v \<longrightarrow> js_ge (tempMax ?cells) v"
    unfolding tempMax_def by blast+
  from m(2) obtain c1 where c1: "c1 \<in> set ?cells" "tempMax ?cells = ?inner c1" by auto
  have "list_ex is_num (map maxT (days c1))"
  proof (rule ccontr)
    assume "\<not> list_ex is_num (map maxT (days c1))"
    then have "d3_max (map maxT (days c1)) = Undefined" by (rule d3_max_none)
    with m(1) c1(2) show False by simp
  qed
  from d3_max_some [OF this] have "?inner c1 \<in> set (map maxT (days c1))" by blast
  then have mem: "tempMax ?cells \<in> set (map maxT data)"
    using aggregate_days_cover [of _ data] c1 by auto
  have up: "js_ge (tempMax ?cells) v" if "v \<in> set (map maxT data)" "is_num v" for v
  proof -
    from that obtain d where d: "d \<in> set data" "v = maxT d" by auto
    then obtain c where c: "c \<in> set ?cells" "d \<in> set (days c)"
      using aggregate_days_cover [of d data] by blast
    from inner [OF c] that d have i: "is_num (?inner c)" "js_ge (?inner c) v" by simp_all
    from m(3) c(1) i(1) have "js_ge (tempMax ?cells) (?inner c)" by auto
    then show ?thesis using i(2) by (rule js_ge_trans)
  qed
  from True m(1) mem up show ?thesis by simp
qed

section \<open>Color scale: position on the ramp, endpoints and clamping\<close>




section \<open>The aggregator on further sample data\<close>

lemma aggregate_ex_two_years:
  "aggregateByYearMonth ex_two_years =
     [\<lparr>year = Num 2019, month = Num 5, avgMax = Num 31, avgMin = Num 25,
       days = [\<lparr>date = LocalDate 2019 5 1, maxT = Num 31, minT = Num 25\<rparr>]\<rparr>,
      \<lparr>year = Num 2020, month = Num 0, avgMax = Num 18, avgMin = Num 12,
       days = [\<lparr>date = LocalDate 2020 0 1, maxT = Num 18, minT = Num 12\<rparr>]\<rparr>]"
  by (simp add: aggregateByYearMonth_def d3_group_def regroup_def ex_two_years_def row_year_def
      row_month_def d3_mean_arithmetic_mean arithmetic_mean_def)



section \<open>Toggle: two clicks restore the display\<close>

text \<open>
  Claim C6 as stated fails for the label before the first click. \<open>drawMatrix\<close> does not
  write \<open>#mode-label\<close>; its first text is the page's. On a page whose label element is
  empty, two clicks leave the label at the handler's text for the max mode, not at the
  empty text it had.
\<close>

theorem toggle_twice_label_counterexample:
  "label (drawMatrix (aggregateByYearMonth ex_nan) []) = []
   \<and> label (click (click (drawMatrix (aggregateByYearMonth ex_nan) []))) = ''Showing: Max Temp''
   \<and> label (click (click (drawMatrix (aggregateByYearMonth ex_nan) [])))
       \<noteq> label (drawMatrix (aggregateByYearMonth ex_nan) [])"
  by (simp add: click_fields drawMatrix_fields)

text \<open>
  Claim C6, as amended. After any number of earlier clicks, two more clicks return every
  cell's fill color and the mode to their values before the first of the two. The label
  returns to its value as well whenever a click has written it before (at least one
  earlier click), and before the first click when the page's own label is the text the
  handler writes for the max mode.
\<close>

theorem toggle_twice:
  "fills (click (click ((click ^^ k) (drawMatrix cells page_label))))
     = fills ((click ^^ k) (drawMatrix cells page_label))
   \<and> mode (click (click ((click ^^ k) (drawMatrix cells page_label))))
     = mode ((click ^^ k) (drawMatrix cells page_label))
   \<and> (0 < k \<or> page_label = ''Showing: Max Temp'' \<longrightarrow>
        label (click (click ((click ^^ k) (drawMatrix cells page_label))))
          = label ((click ^^ k) (drawMatrix cells page_label)))"
proof (intro conjI impI)
  let ?s = "(click ^^ k) (drawMatrix cells page_label)"
  show "fills (click (click ?s)) = fills ?s"
    by (rule click_click_fills) (simp add: clicks_fills [of k] clicks_bound)
  show "mode (click (click ?s)) = mode ?s" by (rule click_click_mode)
  assume "0 < k \<or> page_label = ''Showing: Max Temp''"
  then have "label ?s = ''Showing: '' @ (if mode ?s = Mode_max then ''Max'' else ''Min'') @ '' Temp''"
  proof
    assume "0 < k" then show ?thesis by (rule clicks_label)
  next
    assume l: "page_label = ''Showing: Max Temp''"
    show ?thesis
    proof (cases k)
      case 0 with l show ?thesis by (simp add: drawMatrix_fields)
    next
      case (Suc j) then show ?thesis by (intro clicks_label) simp
    qed
  qed
  then show "label (click (click ?s)) = label ?s" by (rule click_click_label)
qed

theorem toggle_twice_witness:
  "fills (click (click (drawMatrix (aggregateByYearMonth ex_nan) ''Showing: Max Temp'')))
     = fills (drawMatrix (aggregateByYearMonth ex_nan) ''Showing: Max Temp'')
   \<and> mode (click (click (drawMatrix (aggregateByYearMonth ex_nan) ''Showing: Max Temp'')))
     = mode (drawMatrix (aggregateByYearMonth ex_nan) ''Showing: Max Temp'')
   \<and> label (click (click (drawMatrix (aggregateByYearMonth ex_nan) ''Showing: Max Temp'')))
     = label (drawMatrix (aggregateByYearMonth ex_nan) ''Showing: Max Temp'')
   \<and> label (click (click (click (drawMatrix (aggregateByYearMonth ex_nan) ''Loading''))))
     = label (click (drawMatrix (aggregateByYearMonth ex_nan) ''Loading''))"
proof -
  note start = toggle_twice [of 0 "aggregateByYearMonth ex_nan" "''Showing: Max Temp''"]
  note later = toggle_twice [of 1 "aggregateByYearMonth ex_nan" "''Loading''"]
  have k: "(0::nat) < 1" by simp
  from start have
    "fills (click (click (drawMatrix (aggregateByYearMonth ex_nan) ''Showing: Max Temp'')))
       = fills (drawMatrix (aggregateByYearMonth ex_nan) ''Showing: Max Temp'')"
    "mode (click (click (drawMatrix (aggregateByYearMonth ex_nan) ''Showing: Max Temp'')))
       = mode (drawMatrix (aggregateByYearMonth ex_nan) ''Showing: Max Temp'')"
    "label (click (click (drawMatrix (aggregateByYearMonth ex_nan) ''Showing: Max Temp'')))
       = label (drawMatrix (aggregateByYearMonth ex_nan) ''Showing: Max Temp'')"
    by simp_all
  moreover from later k have
    "label (click (click (click (drawMatrix (aggregateByYearMonth ex_nan) ''Loading''))))
       = label (click (drawMatrix (aggregateByYearMonth ex_nan) ''Loading''))"
    by simp
  ultimately show ?thesis by (intro conjI)
qed

section \<open>Aggregator: invariants of the cells\<close>

text \<open>
  Claim C8. The (year, month) pairs of the cells are pairwise distinct, the \<open>days\<close> of
  every cell are not empty, and the cells bound to the chart are still the aggregator's
  cells, field for field, after any number of clicks: nothing writes to a cell.
\<close>

theorem cells_distinct_nonempty_unchanged:
  "distinct (map cell_ym (aggregateByYearMonth data))
   \<and> (\<forall>c \<in> set (aggregateByYearMonth data). days c \<noteq> [])
   \<and> bound ((click ^^ k) (drawMatrix (aggregateByYearMonth data) page_label))
       = aggregateByYearMonth data"
proof (intro conjI ballI)
  show "distinct (map cell_ym (aggregateByYearMonth data))" by (rule aggregate_distinct)
  show "days c \<noteq> []" if "c \<in> set (aggregateByYearMonth data)" for c
    using that by (rule aggregate_cell(2))
  show "bound ((click ^^ k) (drawMatrix (aggregateByYearMonth data) page_label))
       = aggregateByYearMonth data"
    by (rule clicks_bound)
qed

theorem cells_distinct_nonempty_unchanged_witness:
  "distinct (map cell_ym (aggregateByYearMonth ex_two_years))
   \<and> days \<lparr>year = Num 2019, month = Num 5, avgMax = Num 31, avgMin = Num 25,
            days = [\<lparr>date = LocalDate 2019 5 1, maxT = Num 31, minT = Num 25\<rparr>]\<rparr> \<noteq> []
   \<and> bound (click (click (drawMatrix (aggregateByYearMonth ex_two_years) ''Loading'')))
       = aggregateByYearMonth ex_two_years"
proof -
  note inst = cells_distinct_nonempty_unchanged [of ex_two_years 2 "''Loading''"]
  have mem: "\<lparr>year = Num 2019, month = Num 5, avgMax = Num 31, avgMin = Num 25,
            days = [\<lparr>date = LocalDate 2019 5 1, maxT = Num 31, minT = Num 25\<rparr>]\<rparr>
      \<in> set (aggregateByYearMonth ex_two_years)"
    by (simp add: aggregate_ex_two_years)
  have two: "(click ^^ 2) = (\<lambda>s. click (click s))" by (simp add: numeral_2_eq_2 fun_eq_iff)
  from inst mem show ?thesis unfolding two by blast
qed

section \<open>A month with a single day\<close>




end
